theory Spec2Isabelle
  imports Complex_Main
begin

section \<open>Manufactured home registrations: the aggregate and its transitions\<close>

text \<open>
  A shallow embedding of \<^verbatim>\<open>mhr_api/models/mhr_registration.py\<close> (class
  \<^verbatim>\<open>MhrRegistration\<close>) and of the pay-and-save functions of
  \<^verbatim>\<open>mhr_api/resources/registration_utils.py\<close>. ORM objects are records,
  the string enumerations of \<^verbatim>\<open>type_tables\<close> are datatypes, a method that mutates
  \<^verbatim>\<open>self\<close> returns the updated record, and an exception is the left summand of the
  result. The clock (\<^verbatim>\<open>model_utils.now_ts()\<close>) is an explicit argument.
\<close>

subsection \<open>Type tables\<close>

text \<open>
  The enumerations live in \<^verbatim>\<open>mhr_api/models/type_tables.py\<close>. Each datatype lists the
  members the modelled code names; the last constructor of the document types stands for
  every other member.
\<close>

datatype MhrDocumentTypes =
    REG_101 | REG_102 | REG_103 | REG_103E | AMEND_PERMIT | CANCEL_PERMIT
  | CAU | CAUC | CAUE | EXNR | EXRS | EXRE | DEAT | TRAN | AFFE | LETA | WILL
  | STAT | REGC | REGC_CLIENT | REGC_STAFF | PUBA | NCAN | NRED
  | OTHER_DOCUMENT_TYPE string

datatype MhrRegistrationTypes =
    MHREG | MHREG_CONVERSION | DECAL_REPLACE | EXEMPTION_NON_RES | EXEMPTION_RES
  | PERMIT | PERMIT_EXTENSION | TRAND | TRANS | TRANS_AFFIDAVIT | TRANS_ADMIN
  | TRANS_WILL | REG_STAFF_ADMIN | AMENDMENT

text \<open>
  \<^verbatim>\<open>REG_NOTE\<close> is the member a unit note registers under. \<^verbatim>\<open>REG_TO_DOC_TYPE\<close> has no
  key of its own for it, and the repository's test \<^verbatim>\<open>test_create_note_from_json\<close> builds a
  unit note through that table. The model therefore takes \<^verbatim>\<open>REG_NOTE\<close> to carry the value
  of \<^verbatim>\<open>REG_STAFF_ADMIN\<close>, which makes the two names one member of the enumeration.
\<close>

abbreviation REG_NOTE :: MhrRegistrationTypes where
  "REG_NOTE \<equiv> REG_STAFF_ADMIN"

datatype MhrRegistrationStatusTypes = REG_ACTIVE | EXEMPT | HISTORICAL

datatype MhrNoteStatusTypes = NOTE_ACTIVE | CANCELLED | EXPIRED

datatype MhrOwnerStatusTypes = OWNER_ACTIVE | PREVIOUS

datatype MhrTenancyTypes = SOLE | JOINT | COMMON | NA

datatype MhrPartyTypes =
    OWNER_IND | OWNER_BUS | EXECUTOR | ADMINISTRATOR | SUBMITTING | CONTACT

text \<open>
  A timestamp is a \<^verbatim>\<open>datetime\<close>, counted in microseconds (its resolution). The source
  compares \<^verbatim>\<open>expiry_date.timestamp() > now_ts.timestamp()\<close>, which orders two datetimes
  as the integers do.
\<close>

type_synonym timestamp = int

text \<open>
  A Python number: \<^verbatim>\<open>int\<close> is unbounded, and true division \<^verbatim>\<open>/\<close> always yields a
  \<^verbatim>\<open>float\<close>. The float carries its exact value as a rational: Python rounds it to
  binary64, so the model agrees with the code wherever that value is representable.
\<close>

datatype pynum = PyInt int | PyFloat rat

datatype error =
    TypeError | KeyError | IndexError | ValueError
  | NOT_FOUND | UNAUTHORIZED
  | MultipleResultsFound
  | StoreError string
  | SBCPaymentException string
  | DatabaseException error

subsection \<open>The entities\<close>

record MhrNote =
  n_registration_id :: int
  n_document_id :: int
  n_document_type :: MhrDocumentTypes
  destroyed :: string
  n_status_type :: MhrNoteStatusTypes
  remarks :: string
  n_change_registration_id :: int
  expiry_date :: "timestamp option"

record MhrParty =
  p_registration_id :: int
  p_change_registration_id :: int
  party_type :: MhrPartyTypes
  p_status_type :: MhrOwnerStatusTypes
  individual_name :: "string option"
  organization_name :: "string option"
  death_cert_number :: "string option"
  death_ts :: "timestamp option"

record MhrOwnerGroup =
  g_registration_id :: int
  g_change_registration_id :: int
  group_id :: int
  group_sequence_number :: "int option"
  tenancy_type :: MhrTenancyTypes
  g_status_type :: MhrOwnerStatusTypes
  interest :: "string option"
  interest_numerator :: "pynum option"
  interest_denominator :: "int option"
  modified :: bool
  owners :: "MhrParty list"

record MhrDocument =
  d_id :: int
  document_id :: string
  document_registration_number :: string
  d_document_type :: MhrDocumentTypes
  d_registration_id :: int

text \<open>
  Locations, descriptions and sections are built by classes outside this module; the
  model keeps the registration they belong to and the payload they were built from.
\<close>

record MhrLocation =
  l_registration_id :: int
  l_payload :: string

record MhrDescription =
  ds_registration_id :: int
  ds_payload :: string

record MhrSection =
  s_registration_id :: int
  s_payload :: string

text \<open>
  \<^verbatim>\<open>doc_id\<close> is declared a string (the document id), but \<^verbatim>\<open>find_by_mhr_number\<close>
  stores the first document's primary key in it.
\<close>

datatype doc_ref = DocumentId string | DocumentPkey int

text \<open>
  A registration row. \<^verbatim>\<open>id\<close> is \<open>reg_id\<close> and \<^verbatim>\<open>notes\<close> is \<open>reg_notes\<close>
  here. The draft object, the submitting parties and the stored copy of the payload
  (\<^verbatim>\<open>reg_json\<close>) are left out: no function modelled below reads them.
\<close>

record MhrRegistration =
  reg_id :: int
  registration_ts :: timestamp
  mhr_number :: string
  account_id :: "string option"
  client_reference_id :: "string option"
  pay_invoice_id :: "int option"
  pay_path :: "string option"
  user_id :: "string option"
  draft_id :: "int option"
  registration_type :: MhrRegistrationTypes
  status_type :: MhrRegistrationStatusTypes
  locations :: "MhrLocation list"
  documents :: "MhrDocument list"
  reg_notes :: "MhrNote list"
  owner_groups :: "MhrOwnerGroup list"
  descriptions :: "MhrDescription list"
  sections :: "MhrSection list"
  draft_number :: "string option"
  doc_reg_number :: "string option"
  doc_pkey :: "int option"
  doc_id :: "doc_ref option"

text \<open>
  The registration a lookup returns carries the unmapped attributes of the class: the
  chain of change registrations and the view flags. The chain's members are plain rows
  (their own \<^verbatim>\<open>change_registrations\<close> is the empty class default and is never read).
\<close>

record BaseRegistration = MhrRegistration +
  change_registrations :: "MhrRegistration list"
  current_view :: bool
  staff :: bool

text \<open>\<^verbatim>\<open>reg.notes and reg.notes[0]\<close>: the first note of a registration, when it has one.\<close>

definition first_note :: "'a MhrRegistration_scheme \<Rightarrow> MhrNote option" where
  "first_note reg = (case reg_notes reg of [] \<Rightarrow> None | n # _ \<Rightarrow> Some n)"

subsection \<open>\<^verbatim>\<open>set_caution\<close>\<close>

definition is_caution_doc :: "MhrDocumentTypes \<Rightarrow> bool" where
  "is_caution_doc d = (d = CAU \<or> d = CAUC \<or> d = CAUE)"

text \<open>
  The loop of \<^verbatim>\<open>set_caution\<close> over \<^verbatim>\<open>self.change_registrations\<close>, with the flag
  \<^verbatim>\<open>has_caution\<close> as accumulator. A matching note without expiry sets the flag only when
  it is a \<^verbatim>\<open>CAUC\<close>; the first matching note with an expiry decides and ends the loop
  (\<^verbatim>\<open>break\<close>).
\<close>

fun set_caution_loop :: "timestamp \<Rightarrow> bool \<Rightarrow> MhrRegistration list \<Rightarrow> bool" where
  "set_caution_loop now_ts has_caution [] = has_caution"
| "set_caution_loop now_ts has_caution (reg # regs) =
     (case reg_notes reg of
        [] \<Rightarrow> set_caution_loop now_ts has_caution regs
      | n # _ \<Rightarrow>
          if is_caution_doc (n_document_type n) \<and> n_status_type n = NOTE_ACTIVE then
            (case expiry_date n of
               None \<Rightarrow>
                 if n_document_type n = CAUC then set_caution_loop now_ts True regs
                 else set_caution_loop now_ts has_caution regs
             | Some e \<Rightarrow> e > now_ts)
          else set_caution_loop now_ts has_caution regs)"

definition set_caution :: "timestamp \<Rightarrow> 'a BaseRegistration_scheme \<Rightarrow> bool" where
  "set_caution now_ts self =
     (if change_registrations self = [] then False
      else set_caution_loop now_ts False (change_registrations self))"

subsection \<open>\<^verbatim>\<open>save_exemption\<close>\<close>

definition is_permit_doc :: "MhrDocumentTypes \<Rightarrow> bool" where
  "is_permit_doc d = (d = REG_103 \<or> d = REG_103E \<or> d = AMEND_PERMIT)"

text \<open>The body of the loop of \<^verbatim>\<open>save_exemption\<close>: one change registration.\<close>

definition close_permit_note :: "int \<Rightarrow> MhrRegistration \<Rightarrow> MhrRegistration" where
  "close_permit_note new_reg_id reg =
     (case reg_notes reg of
        [] \<Rightarrow> reg
      | n # ns \<Rightarrow>
          if is_permit_doc (n_document_type n) \<and> n_status_type n = NOTE_ACTIVE then
            reg\<lparr>reg_notes :=
              n\<lparr>n_status_type := CANCELLED, n_change_registration_id := new_reg_id\<rparr> # ns\<rparr>
          else reg)"

text \<open>
  \<^verbatim>\<open>save_exemption\<close> updates the objects and commits the session; the model returns the
  updated aggregate (a commit that fails is the store's failure, not modelled here).
\<close>

definition save_exemption :: "int \<Rightarrow> BaseRegistration \<Rightarrow> BaseRegistration" where
  "save_exemption new_reg_id self =
     self\<lparr>status_type := EXEMPT,
          change_registrations := map (close_permit_note new_reg_id) (change_registrations self)\<rparr>"

subsection \<open>Payloads and collaborators\<close>

text \<open>
  The payload \<^verbatim>\<open>json_data\<close> is a dict; the model is a record of the keys the modelled
  functions read, \<open>None\<close> for a key that is absent (or holds a falsy value where the
  source only tests truthiness). A name object is kept as the string of the name.
\<close>

record owner_json =
  oj_partyType :: "MhrPartyTypes option"
  oj_individualName :: "string option"
  oj_organizationName :: "string option"
  oj_deathCertificateNumber :: "string option"
  oj_deathDateTime :: "timestamp option"

record owner_group_json =
  gj_groupId :: "int option"
  gj_owners :: "owner_json list option"
  gj_type :: MhrTenancyTypes
  gj_interest :: "string option"
  gj_interestNumerator :: "int option"
  gj_interestDenominator :: "int option"

record note_json =
  nj_documentType :: MhrDocumentTypes
  nj_remarks :: "string option"

record description_json =
  dj_payload :: string
  dj_sections :: "string list option"

record json_data =
  documentId :: "string option"
  clientReferenceId :: "string option"
  registrationType :: "MhrRegistrationTypes option"
  documentType :: "MhrDocumentTypes option"
  transferDocumentType :: "MhrDocumentTypes option"
  amendment :: bool
  extension :: bool
  ownerGroups :: "owner_group_json list option"
  addOwnerGroups :: "owner_group_json list option"
  deleteOwnerGroups :: "owner_group_json list option"
  location :: "string option"
  newLocation :: "string option"
  description :: "description_json option"
  json_note :: "note_json option"

record MhrDraft =
  dr_id :: int
  dr_mhr_number :: string

text \<open>The values \<^verbatim>\<open>reg_utils.get_change_generated_values\<close> draws from the database sequences.\<close>

record generated_values =
  gv_id :: int
  gv_doc_reg_number :: string
  gv_doc_pkey :: int
  gv_doc_id :: string
  gv_draft_number :: string
  gv_draft_id :: int

text \<open>
  What one call of a builder gets from outside this module: the clock, the generated
  values, the draft lookup, and the constructors of the classes that are not part of it.
  Each constructor may raise.
\<close>

record collaborators =
  clock_now_ts :: timestamp
  compute_permit_expiry :: timestamp
  get_change_generated_values :: generated_values
  MhrDraft_find_draft :: "MhrDraft option"
  STAFF_ROLE :: string
  MhrLocation_create_from_json :: "string option \<Rightarrow> int \<Rightarrow> error + MhrLocation"
  MhrDescription_create_from_json :: "description_json option \<Rightarrow> int \<Rightarrow> error + MhrDescription"
  MhrSection_create_from_json :: "string \<Rightarrow> int \<Rightarrow> error + MhrSection"
  setup_permit_extension_location ::
    "BaseRegistration \<Rightarrow> MhrRegistration \<Rightarrow> string option \<Rightarrow> error + MhrRegistration"

text \<open>\<^verbatim>\<open>REG_TO_DOC_TYPE[registration_type]\<close>: a missing key raises \<^verbatim>\<open>KeyError\<close>.\<close>

fun REG_TO_DOC_TYPE :: "MhrRegistrationTypes \<Rightarrow> error + MhrDocumentTypes" where
  "REG_TO_DOC_TYPE DECAL_REPLACE = Inr REG_102"
| "REG_TO_DOC_TYPE EXEMPTION_NON_RES = Inr EXNR"
| "REG_TO_DOC_TYPE EXEMPTION_RES = Inr EXRS"
| "REG_TO_DOC_TYPE MHREG = Inr REG_101"
| "REG_TO_DOC_TYPE PERMIT = Inr REG_103"
| "REG_TO_DOC_TYPE PERMIT_EXTENSION = Inr REG_103E"
| "REG_TO_DOC_TYPE TRAND = Inr DEAT"
| "REG_TO_DOC_TYPE TRANS = Inr TRAN"
| "REG_TO_DOC_TYPE TRANS_AFFIDAVIT = Inr AFFE"
| "REG_TO_DOC_TYPE TRANS_ADMIN = Inr LETA"
| "REG_TO_DOC_TYPE TRANS_WILL = Inr WILL"
| "REG_TO_DOC_TYPE REG_STAFF_ADMIN = Inr CAU"
| "REG_TO_DOC_TYPE _ = Inl KeyError"

text \<open>
  Modelled from the spec: \<^verbatim>\<open>MhrParty.create_from_json(owner_json, party_type, registration_id)\<close>
  (class \<^verbatim>\<open>MhrParty\<close> is not part of this module) builds an ACTIVE party of the given
  type for the registration, named as the payload says.
\<close>

definition MhrParty_create_from_json :: "owner_json \<Rightarrow> MhrPartyTypes \<Rightarrow> int \<Rightarrow> MhrParty" where
  "MhrParty_create_from_json oj pt registration_id =
     \<lparr>p_registration_id = registration_id, p_change_registration_id = registration_id,
      party_type = pt, p_status_type = OWNER_ACTIVE,
      individual_name = oj_individualName oj, organization_name = oj_organizationName oj,
      death_cert_number = None, death_ts = None\<rparr>"

text \<open>
  Modelled from the spec: \<^verbatim>\<open>MhrOwnerGroup.create_from_json(group_json, registration_id)\<close>
  (class \<^verbatim>\<open>MhrOwnerGroup\<close> is not part of this module) builds an ACTIVE group of the
  payload's tenancy type and interest, with no owners yet. The repository's test
  \<^verbatim>\<open>test_create_new_groups\<close> reads these fields back as the payload gave them.
\<close>

definition MhrOwnerGroup_create_from_json :: "owner_group_json \<Rightarrow> int \<Rightarrow> MhrOwnerGroup" where
  "MhrOwnerGroup_create_from_json gj registration_id =
     \<lparr>g_registration_id = registration_id, g_change_registration_id = registration_id,
      group_id = (case gj_groupId gj of None \<Rightarrow> 0 | Some g \<Rightarrow> g),
      group_sequence_number = None,
      tenancy_type = gj_type gj, g_status_type = OWNER_ACTIVE,
      interest = gj_interest gj,
      interest_numerator = map_option PyInt (gj_interestNumerator gj),
      interest_denominator = gj_interestDenominator gj,
      modified = False, owners = []\<rparr>"


text \<open>
  Modelled from the spec: \<^verbatim>\<open>MhrDocument.create_from_json(registration, json_data, doc_type)\<close>
  builds the registration's document from its generated keys; the repository's tests read
  \<^verbatim>\<open>doc.document_id == registration.doc_id\<close> and
  \<^verbatim>\<open>doc.document_registration_number == registration.doc_reg_number\<close>.
\<close>

definition MhrDocument_create_from_json ::
  "generated_values \<Rightarrow> string \<Rightarrow> int \<Rightarrow> MhrDocumentTypes \<Rightarrow> MhrDocument" where
  "MhrDocument_create_from_json vals doc_id_str registration_id doc_type =
     \<lparr>d_id = gv_doc_pkey vals, document_id = doc_id_str,
      document_registration_number = gv_doc_reg_number vals,
      d_document_type = doc_type, d_registration_id = registration_id\<rparr>"

subsection \<open>\<^verbatim>\<open>create_new_groups\<close> and \<^verbatim>\<open>create_new_from_json\<close>\<close>

text \<open>The party type of an owner of a new registration: the \<^verbatim>\<open>if\<close>/\<^verbatim>\<open>elif\<close> chain.\<close>

definition new_owner_party_type :: "owner_json \<Rightarrow> MhrPartyTypes" where
  "new_owner_party_type oj =
     (case oj_partyType oj of
        None \<Rightarrow> if oj_individualName oj \<noteq> None then OWNER_IND else OWNER_BUS
      | Some pt \<Rightarrow>
          if pt = OWNER_BUS \<and> oj_individualName oj \<noteq> None then OWNER_IND
          else if pt = OWNER_IND \<and> oj_organizationName oj \<noteq> None then OWNER_BUS
          else pt)"

text \<open>
  The loop of \<^verbatim>\<open>create_new_groups\<close>; \<open>sequence\<close> is the counter before the iteration.
  Iterating over a missing \<^verbatim>\<open>owners\<close> list raises \<^verbatim>\<open>TypeError\<close>.
\<close>

fun create_new_groups_loop ::
  "int \<Rightarrow> int \<Rightarrow> owner_group_json list \<Rightarrow> error + MhrOwnerGroup list" where
  "create_new_groups_loop self_id sequence [] = Inr []"
| "create_new_groups_loop self_id sequence (group_json # rest) =
     (case gj_owners group_json of
        None \<Rightarrow> Inl TypeError
      | Some owners_json \<Rightarrow>
          (case create_new_groups_loop self_id (sequence + 1) rest of
             Inl e \<Rightarrow> Inl e
           | Inr groups \<Rightarrow>
               Inr ((MhrOwnerGroup_create_from_json group_json self_id)
                      \<lparr>group_id := sequence + 1,
                       group_sequence_number := Some (sequence + 1),
                       owners := map (\<lambda>oj. MhrParty_create_from_json oj
                                        (new_owner_party_type oj) self_id) owners_json\<rparr>
                    # groups)))"

text \<open>
  \<^verbatim>\<open>create_new_groups\<close> returns the new value of \<^verbatim>\<open>self.owner_groups\<close>. Its last line,
  the call \<^verbatim>\<open>self.adjust_group_interest(True)\<close>, is commented out in the source, so the
  interests stay as the loop built them.
\<close>

definition create_new_groups :: "int \<Rightarrow> json_data \<Rightarrow> error + MhrOwnerGroup list" where
  "create_new_groups self_id data =
     (case ownerGroups data of
        None \<Rightarrow> Inl TypeError
      | Some groups_json \<Rightarrow> create_new_groups_loop self_id 0 groups_json)"

text \<open>\<^verbatim>\<open>get_sections\<close>.\<close>

fun create_sections ::
  "collaborators \<Rightarrow> int \<Rightarrow> string list \<Rightarrow> error + MhrSection list" where
  "create_sections env registration_id [] = Inr []"
| "create_sections env registration_id (s # ss) =
     (case MhrSection_create_from_json env s registration_id of
        Inl e \<Rightarrow> Inl e
      | Inr sec \<Rightarrow>
          (case create_sections env registration_id ss of
             Inl e \<Rightarrow> Inl e
           | Inr secs \<Rightarrow> Inr (sec # secs)))"

definition get_sections :: "collaborators \<Rightarrow> json_data \<Rightarrow> int \<Rightarrow> error + MhrSection list" where
  "get_sections env data registration_id =
     (case description data of
        None \<Rightarrow> Inr []
      | Some d \<Rightarrow>
          (case dj_sections d of
             None \<Rightarrow> Inr []
           | Some ss \<Rightarrow> create_sections env registration_id ss))"

text \<open>
  \<^verbatim>\<open>create_new_from_json\<close>. The steps that can raise come in the source's order: the owner
  groups, the location (\<^verbatim>\<open>json_data["location"]\<close> raises \<^verbatim>\<open>KeyError\<close> when absent),
  the document, the description, the sections.
\<close>

definition create_new_from_json ::
  "collaborators \<Rightarrow> json_data \<Rightarrow> MhrDraft \<Rightarrow> string option \<Rightarrow> string option
     \<Rightarrow> error + MhrRegistration" where
  "create_new_from_json env data draft acct usr =
     (let vals = get_change_generated_values env;
          doc_id_str = (case documentId data of
                          None \<Rightarrow> gv_doc_id vals
                        | Some d \<Rightarrow> if d = [] then gv_doc_id vals else d)
      in case create_new_groups (gv_id vals) data of
           Inl e \<Rightarrow> Inl e
         | Inr groups \<Rightarrow>
      (case location data of
           None \<Rightarrow> Inl KeyError
         | Some loc_json \<Rightarrow>
      (case MhrLocation_create_from_json env (Some loc_json) (gv_id vals) of
           Inl e \<Rightarrow> Inl e
         | Inr loc \<Rightarrow>
      (case REG_TO_DOC_TYPE MHREG of
           Inl e \<Rightarrow> Inl e
         | Inr doc_type \<Rightarrow>
      (case MhrDescription_create_from_json env (description data) (gv_id vals) of
           Inl e \<Rightarrow> Inl e
         | Inr desc \<Rightarrow>
      (case get_sections env data (gv_id vals) of
           Inl e \<Rightarrow> Inl e
         | Inr secs \<Rightarrow>
             Inr \<lparr>reg_id = gv_id vals,
                  registration_ts = clock_now_ts env,
                  mhr_number = dr_mhr_number draft,
                  account_id = acct,
                  client_reference_id = clientReferenceId data,
                  pay_invoice_id = None,
                  pay_path = None,
                  user_id = usr,
                  draft_id = Some (dr_id draft),
                  registration_type = MHREG,
                  status_type = REG_ACTIVE,
                  locations = [loc],
                  documents = [MhrDocument_create_from_json vals doc_id_str (gv_id vals) doc_type],
                  reg_notes = [],
                  owner_groups = groups,
                  descriptions = [desc],
                  sections = secs,
                  draft_number = None,
                  doc_reg_number = Some (gv_doc_reg_number vals),
                  doc_pkey = Some (gv_doc_pkey vals),
                  doc_id = Some (DocumentId doc_id_str)\<rparr>))))))"

subsection \<open>\<^verbatim>\<open>adjust_group_interest\<close>\<close>

text \<open>
  The first loop: the count of ACTIVE tenants-in-common groups and the greatest of their
  denominators. \<^verbatim>\<open>common_denominator\<close> starts at 0 and takes the first such group's
  denominator whatever it is; comparing with \<^verbatim>\<open>None\<close> raises \<^verbatim>\<open>TypeError\<close>.
\<close>

fun common_denominator_loop ::
  "int \<Rightarrow> int option \<Rightarrow> MhrOwnerGroup list \<Rightarrow> error + int \<times> int option" where
  "common_denominator_loop tc_count common_denominator [] = Inr (tc_count, common_denominator)"
| "common_denominator_loop tc_count common_denominator (grp # groups) =
     (if tenancy_type grp = COMMON \<and> g_status_type grp = OWNER_ACTIVE then
        (if common_denominator = Some 0 then
           common_denominator_loop (tc_count + 1) (interest_denominator grp) groups
         else
           (case (interest_denominator grp, common_denominator) of
              (Some d, Some c) \<Rightarrow>
                if d > c then common_denominator_loop (tc_count + 1) (Some d) groups
                else common_denominator_loop (tc_count + 1) common_denominator groups
            | _ \<Rightarrow> Inl TypeError))
      else common_denominator_loop tc_count common_denominator groups)"

definition py_positive :: "pynum \<Rightarrow> bool" where
  "py_positive n = (case n of PyInt i \<Rightarrow> i > 0 | PyFloat r \<Rightarrow> r > 0)"

text \<open>\<^verbatim>\<open>common_denominator / den * num\<close>: a true division, then a product with the quotient.\<close>

definition rescale :: "int \<Rightarrow> int \<Rightarrow> pynum \<Rightarrow> pynum" where
  "rescale common_denominator den num =
     (case num of
        PyInt i \<Rightarrow> PyFloat (Fract common_denominator den * of_int i)
      | PyFloat r \<Rightarrow> PyFloat (Fract common_denominator den * r))"

text \<open>The body of the second loop, for one group.\<close>

definition adjust_group ::
  "bool \<Rightarrow> int option \<Rightarrow> MhrOwnerGroup \<Rightarrow> error + MhrOwnerGroup" where
  "adjust_group new common_denominator grp =
     (if new \<or> (modified grp \<and> g_status_type grp = OWNER_ACTIVE) then
        (case interest_numerator grp of
           None \<Rightarrow> Inl TypeError
         | Some num \<Rightarrow>
             if \<not> py_positive num then Inr grp
             else
               (case interest_denominator grp of
                  None \<Rightarrow> Inl TypeError
                | Some den \<Rightarrow>
                    if \<not> den > 0 then Inr grp
                    else if Some den = common_denominator then Inr grp
                    else
                      (case common_denominator of
                         None \<Rightarrow> Inl TypeError
                       | Some c \<Rightarrow>
                           Inr (grp\<lparr>interest_denominator := Some c,
                                      interest_numerator := Some (rescale c den num)\<rparr>))))
      else Inr grp)"

fun adjust_groups_loop ::
  "bool \<Rightarrow> int option \<Rightarrow> MhrOwnerGroup list \<Rightarrow> error + MhrOwnerGroup list" where
  "adjust_groups_loop new common_denominator [] = Inr []"
| "adjust_groups_loop new common_denominator (grp # groups) =
     (case adjust_group new common_denominator grp of
        Inl e \<Rightarrow> Inl e
      | Inr grp' \<Rightarrow>
          (case adjust_groups_loop new common_denominator groups of
             Inl e \<Rightarrow> Inl e
           | Inr groups' \<Rightarrow> Inr (grp' # groups')))"

text \<open>\<^verbatim>\<open>adjust_group_interest\<close> returns the new value of \<^verbatim>\<open>self.owner_groups\<close>.\<close>

definition adjust_group_interest :: "bool \<Rightarrow> MhrOwnerGroup list \<Rightarrow> error + MhrOwnerGroup list" where
  "adjust_group_interest new groups =
     (case common_denominator_loop 0 (Some 0) groups of
        Inl e \<Rightarrow> Inl e
      | Inr (tc_count, common_denominator) \<Rightarrow>
          if tc_count > 0 then adjust_groups_loop new common_denominator groups
          else Inr groups)"

subsection \<open>\<^verbatim>\<open>create_change_from_json\<close>\<close>

text \<open>
  The builder mutates the payload (\<^verbatim>\<open>json_data["documentId"] = registration.doc_id\<close>) and
  its callers read the payload afterwards, so the model returns the payload with the
  registration. \<^verbatim>\<open>REG_TO_DOC_TYPE[json_data.get("registrationType")]\<close> raises
  \<^verbatim>\<open>KeyError\<close> for a missing type as for one without an entry. The draft and the
  parties \<^verbatim>\<open>MhrParty.create_from_registration_json\<close> builds are not kept in the model.
\<close>

definition create_change_from_json ::
  "collaborators \<Rightarrow> BaseRegistration \<Rightarrow> json_data \<Rightarrow> string option \<Rightarrow> string option
     \<Rightarrow> error + MhrRegistration \<times> json_data" where
  "create_change_from_json env base_reg data acct usr =
     (let vals = get_change_generated_values env;
          doc_id_str = (case documentId data of
                          None \<Rightarrow> gv_doc_id vals
                        | Some d \<Rightarrow> if d = [] then gv_doc_id vals else d)
      in case registrationType data of
           None \<Rightarrow> Inl KeyError
         | Some rt \<Rightarrow>
      (case REG_TO_DOC_TYPE rt of
           Inl e \<Rightarrow> Inl e
         | Inr table_type \<Rightarrow>
             let doc_type =
                   (if rt = REG_STAFF_ADMIN \<and> documentType data \<noteq> None then
                      (case documentType data of Some d \<Rightarrow> d | None \<Rightarrow> table_type)
                    else if rt = REG_NOTE \<and> json_note data \<noteq> None then
                      (case json_note data of Some n \<Rightarrow> nj_documentType n | None \<Rightarrow> table_type)
                    else if rt = TRANS \<and> transferDocumentType data \<noteq> None then
                      (case transferDocumentType data of Some t \<Rightarrow> t | None \<Rightarrow> table_type)
                    else table_type);
                 doc = (MhrDocument_create_from_json vals doc_id_str (gv_id vals) doc_type)
                         \<lparr>d_registration_id := reg_id base_reg\<rparr>
             in Inr (\<lparr>reg_id = gv_id vals,
                      registration_ts = clock_now_ts env,
                      mhr_number = mhr_number base_reg,
                      account_id = acct,
                      client_reference_id = clientReferenceId data,
                      pay_invoice_id = None,
                      pay_path = None,
                      user_id = usr,
                      draft_id = (case MhrDraft_find_draft env of
                                    None \<Rightarrow> Some (gv_draft_id vals)
                                  | Some draft \<Rightarrow> Some (dr_id draft)),
                      registration_type = rt,
                      status_type = REG_ACTIVE,
                      locations = [],
                      documents = [doc],
                      reg_notes = [],
                      owner_groups = [],
                      descriptions = [],
                      sections = [],
                      draft_number = (case MhrDraft_find_draft env of
                                        None \<Rightarrow> Some (gv_draft_number vals)
                                      | Some draft \<Rightarrow> None),
                      doc_reg_number = Some (gv_doc_reg_number vals),
                      doc_pkey = Some (gv_doc_pkey vals),
                      doc_id = Some (DocumentId doc_id_str)\<rparr>,
                     data\<lparr>documentId := Some doc_id_str\<rparr>)))"

subsection \<open>\<^verbatim>\<open>create_permit_from_json\<close>\<close>

text \<open>
  The test of the amendment loop: the change registration's first note is ACTIVE, has an
  expiry date and is a transport permit, an extension or an amendment of one.
\<close>

definition has_open_permit_note :: "MhrRegistration \<Rightarrow> bool" where
  "has_open_permit_note reg =
     (case reg_notes reg of
        [] \<Rightarrow> False
      | n # _ \<Rightarrow> n_status_type n = NOTE_ACTIVE \<and> expiry_date n \<noteq> None
                 \<and> is_permit_doc (n_document_type n))"

text \<open>
  The amendment loop runs over the whole chain without a \<^verbatim>\<open>break\<close>: every match
  overwrites the new note's expiry, so the last match's expiry stays.
\<close>

fun amendment_expiry_loop :: "MhrRegistration list \<Rightarrow> MhrNote \<Rightarrow> MhrNote" where
  "amendment_expiry_loop [] new_note = new_note"
| "amendment_expiry_loop (reg # regs) new_note =
     amendment_expiry_loop regs
       (case reg_notes reg of
          [] \<Rightarrow> new_note
        | n # _ \<Rightarrow>
            if has_open_permit_note reg then new_note\<lparr>expiry_date := expiry_date n\<rparr>
            else new_note)"

text \<open>
  \<^verbatim>\<open>create_permit_from_json\<close>. The new note starts with the freshly computed expiry
  (\<^verbatim>\<open>model_utils.compute_permit_expiry()\<close>); for an amendment the loop above then
  replaces it. An extension keeps the location (\<^verbatim>\<open>setup_permit_extension_location\<close>),
  anything else appends the new location.
\<close>

definition create_permit_from_json ::
  "collaborators \<Rightarrow> BaseRegistration \<Rightarrow> json_data \<Rightarrow> string option \<Rightarrow> string option
     \<Rightarrow> error + MhrRegistration \<times> json_data" where
  "create_permit_from_json env base_reg data acct usr =
     (case create_change_from_json env base_reg (data\<lparr>registrationType := Some PERMIT\<rparr>) acct usr of
        Inl e \<Rightarrow> Inl e
      | Inr (registration, data1) \<Rightarrow>
     (case documents registration of
        [] \<Rightarrow> Inl IndexError
      | doc0 # docs \<Rightarrow>
          let doc = (if amendment data1 then doc0\<lparr>d_document_type := AMEND_PERMIT\<rparr>
                     else if extension data1 then doc0\<lparr>d_document_type := REG_103E\<rparr>
                     else doc0);
              registration1 =
                (if amendment data1 then registration\<lparr>registration_type := AMENDMENT\<rparr>
                 else if extension data1 then registration\<lparr>registration_type := PERMIT_EXTENSION\<rparr>
                 else registration)\<lparr>documents := doc # docs\<rparr>;
              data2 = (if amendment data1 then data1\<lparr>registrationType := Some AMENDMENT\<rparr>
                       else data1);
              note0 = \<lparr>n_registration_id = reg_id base_reg,
                       n_document_id = d_id doc,
                       n_document_type = d_document_type doc,
                       destroyed = ''N'',
                       n_status_type = NOTE_ACTIVE,
                       remarks = [],
                       n_change_registration_id = reg_id registration,
                       expiry_date = Some (compute_permit_expiry env)\<rparr>;
              note1 = (if amendment data2
                       then amendment_expiry_loop (change_registrations base_reg) note0
                       else note0)
          in if d_document_type doc = REG_103E then
               (case setup_permit_extension_location env base_reg registration1 (newLocation data2) of
                  Inl e \<Rightarrow> Inl e
                | Inr registration2 \<Rightarrow>
                    let note2 =
                          (case json_note data2 of
                             None \<Rightarrow> note1
                           | Some nj \<Rightarrow>
                               (case nj_remarks nj of
                                  None \<Rightarrow> note1
                                | Some r \<Rightarrow>
                                    if acct = Some (STAFF_ROLE env) \<and> r \<noteq> []
                                    then note1\<lparr>remarks := r\<rparr> else note1))
                    in Inr (registration2\<lparr>reg_notes := [note2]\<rparr>, data2))
             else
               (case MhrLocation_create_from_json env (newLocation data2) (reg_id registration1) of
                  Inl e \<Rightarrow> Inl e
                | Inr loc \<Rightarrow>
                    Inr (registration1\<lparr>locations := locations registration1 @ [loc],
                                       reg_notes := [note1]\<rparr>, data2))))"

subsection \<open>\<^verbatim>\<open>add_new_groups\<close> and \<^verbatim>\<open>create_transfer_from_json\<close>\<close>





text \<open>
  Modelled from the spec: \<^verbatim>\<open>reg_utils.get_owner_group_count(base_reg)\<close> (module
  \<^verbatim>\<open>mhr_api/models/registration_utils.py\<close> is not among the sources) is the spec's
  \<^verbatim>\<open>existingActiveGroupCount\<close>: the number of owner groups with status ACTIVE on the
  chain root and its change registrations.
\<close>

definition all_owner_groups :: "BaseRegistration \<Rightarrow> MhrOwnerGroup list" where
  "all_owner_groups base_reg =
     owner_groups base_reg @ concat (map owner_groups (change_registrations base_reg))"




subsection \<open>\<^verbatim>\<open>remove_group\<close>, \<^verbatim>\<open>remove_groups\<close> and \<^verbatim>\<open>save_transfer\<close>\<close>

text \<open>
  Modelled from the spec: \<^verbatim>\<open>reg_utils.is_transfer_due_to_death(reg_type)\<close> is true of the
  death-transfer variants. The repository's test \<^verbatim>\<open>test_save_transfer_death\<close> expects the
  death metadata for \<^verbatim>\<open>TRAND\<close>, \<^verbatim>\<open>TRANS_ADMIN\<close>, \<^verbatim>\<open>TRANS_AFFIDAVIT\<close> and
  \<^verbatim>\<open>TRANS_WILL\<close>.
\<close>

definition is_transfer_due_to_death :: "MhrRegistrationTypes option \<Rightarrow> bool" where
  "is_transfer_due_to_death reg_type =
     (reg_type = Some TRAND \<or> reg_type = Some TRANS_ADMIN
      \<or> reg_type = Some TRANS_AFFIDAVIT \<or> reg_type = Some TRANS_WILL)"

text \<open>
  Modelled from the spec: the owners \<^verbatim>\<open>reg_utils.update_deceased\<close> takes for matching
  ones are those of the payload with the name of \<open>owner\<close>, an individual's or an
  organization's.
\<close>

definition owner_matches :: "owner_json \<Rightarrow> MhrParty \<Rightarrow> bool" where
  "owner_matches oj owner =
     ((oj_individualName oj \<noteq> None \<and> oj_individualName oj = individual_name owner)
      \<or> (oj_organizationName oj \<noteq> None \<and> oj_organizationName oj = organization_name owner))"

text \<open>
  Modelled from the spec: the death metadata \<^verbatim>\<open>reg_utils.update_deceased\<close> stamps are the
  death certificate number and the time of death, where the payload carries them.
\<close>

definition stamp_death :: "owner_json \<Rightarrow> MhrParty \<Rightarrow> MhrParty" where
  "stamp_death oj owner =
     owner\<lparr>death_cert_number :=
              (case oj_deathCertificateNumber oj of
                 None \<Rightarrow> death_cert_number owner | Some c \<Rightarrow> Some c),
           death_ts :=
              (case oj_deathDateTime oj of None \<Rightarrow> death_ts owner | Some t \<Rightarrow> Some t)\<rparr>"

text \<open>
  Modelled from the spec: \<^verbatim>\<open>reg_utils.update_deceased(owners_json, owner)\<close> (module
  \<^verbatim>\<open>mhr_api/models/registration_utils.py\<close> is not among the sources) stamps the death
  metadata of the payload onto a matching owner: it goes through the owners of the delete
  instruction, and each one that matches \<open>owner\<close> stamps what it carries. A delete
  instruction without \<^verbatim>\<open>owners\<close> stamps nothing.
\<close>

fun update_deceased_loop :: "owner_json list \<Rightarrow> MhrParty \<Rightarrow> MhrParty" where
  "update_deceased_loop [] owner = owner"
| "update_deceased_loop (oj # ojs) owner =
     update_deceased_loop ojs (if owner_matches oj owner then stamp_death oj owner else owner)"

definition update_deceased :: "owner_json list option \<Rightarrow> MhrParty \<Rightarrow> MhrParty" where
  "update_deceased owners_json owner =
     (case owners_json of None \<Rightarrow> owner | Some ojs \<Rightarrow> update_deceased_loop ojs owner)"

text \<open>The body of the loop over \<^verbatim>\<open>existing.owners\<close> in \<^verbatim>\<open>remove_group\<close>.\<close>

definition remove_owner ::
  "owner_group_json \<Rightarrow> int \<Rightarrow> MhrRegistrationTypes option \<Rightarrow> MhrParty \<Rightarrow> MhrParty" where
  "remove_owner delete_json new_reg_id reg_type owner =
     (let owner1 = owner\<lparr>p_status_type := PREVIOUS, p_change_registration_id := new_reg_id\<rparr>
      in if is_transfer_due_to_death reg_type
         then update_deceased (gj_owners delete_json) owner1 else owner1)"

definition remove_group ::
  "owner_group_json \<Rightarrow> MhrOwnerGroup \<Rightarrow> int \<Rightarrow> MhrRegistrationTypes option \<Rightarrow> MhrOwnerGroup" where
  "remove_group delete_json existing new_reg_id reg_type =
     (if Some (group_id existing) = gj_groupId delete_json then
        existing\<lparr>g_status_type := PREVIOUS,
                 g_change_registration_id := new_reg_id,
                 modified := True,
                 owners := map (remove_owner delete_json new_reg_id reg_type) (owners existing)\<rparr>
      else existing)"

text \<open>
  One iteration of the outer loop of \<^verbatim>\<open>remove_groups\<close>: one delete instruction, applied
  to the groups of the chain root and then to those of every change registration.
\<close>

definition remove_groups_step ::
  "int \<Rightarrow> MhrRegistrationTypes option \<Rightarrow> owner_group_json \<Rightarrow> BaseRegistration
     \<Rightarrow> BaseRegistration" where
  "remove_groups_step new_reg_id reg_type delete_json self =
     self\<lparr>owner_groups :=
            map (\<lambda>existing. remove_group delete_json existing new_reg_id reg_type)
              (owner_groups self),
          change_registrations :=
            map (\<lambda>reg. reg\<lparr>owner_groups :=
                   map (\<lambda>existing. remove_group delete_json existing new_reg_id reg_type)
                     (owner_groups reg)\<rparr>)
              (change_registrations self)\<rparr>"

fun remove_groups_loop ::
  "int \<Rightarrow> MhrRegistrationTypes option \<Rightarrow> owner_group_json list \<Rightarrow> BaseRegistration
     \<Rightarrow> BaseRegistration" where
  "remove_groups_loop new_reg_id reg_type [] self = self"
| "remove_groups_loop new_reg_id reg_type (delete_json # rest) self =
     remove_groups_loop new_reg_id reg_type rest
       (remove_groups_step new_reg_id reg_type delete_json self)"

text \<open>Iterating over a missing \<^verbatim>\<open>deleteOwnerGroups\<close> raises \<^verbatim>\<open>TypeError\<close>.\<close>

definition remove_groups :: "json_data \<Rightarrow> int \<Rightarrow> BaseRegistration \<Rightarrow> error + BaseRegistration" where
  "remove_groups data new_reg_id self =
     (case deleteOwnerGroups data of
        None \<Rightarrow> Inl TypeError
      | Some deletes \<Rightarrow> Inr (remove_groups_loop new_reg_id (registrationType data) deletes self))"


subsection \<open>Lookups by MHR number\<close>

text \<open>
  The store: the rows of \<^verbatim>\<open>mhr_registrations\<close> and the extra-registration grants, a
  grant being a pair of an MHR number and an account id.
\<close>

record store =
  registrations :: "MhrRegistration list"
  extra_registrations :: "(string \<times> string) list"

text \<open>\<^verbatim>\<open>Query.one_or_none()\<close> raises when the query finds several rows.\<close>

fun one_or_none :: "'a list \<Rightarrow> error + 'a option" where
  "one_or_none [] = Inr None"
| "one_or_none [x] = Inr (Some x)"
| "one_or_none _ = Inl MultipleResultsFound"

text \<open>A row as the session returns it: the unmapped attributes hold the class defaults.\<close>

definition loaded :: "MhrRegistration \<Rightarrow> BaseRegistration" where
  "loaded row = MhrRegistration.extend row
     (BaseRegistration.fields [] False False)"

text \<open>Truthiness of an optional string: \<^verbatim>\<open>None\<close> and the empty string are falsy.\<close>

definition truthy :: "string option \<Rightarrow> bool" where
  "truthy s = (s \<noteq> None \<and> s \<noteq> Some [])"

text \<open>
  Modelled from the spec: \<^verbatim>\<open>MhrExtraRegistration.find_by_mhr_number(mhr_number, account_id)\<close>
  finds the grant for that business key and account, if there is one.
\<close>

definition extra_registration_exists :: "store \<Rightarrow> string \<Rightarrow> string option \<Rightarrow> bool" where
  "extra_registration_exists st formatted_mhr acct =
     (case acct of
        None \<Rightarrow> False
      | Some a \<Rightarrow> (formatted_mhr, a) \<in> set (extra_registrations st))"

definition is_root_type :: "MhrRegistrationTypes \<Rightarrow> bool" where
  "is_root_type t = (t = MHREG \<or> t = MHREG_CONVERSION)"

text \<open>
  \<^verbatim>\<open>registration.doc_id = registration.documents[0].id\<close>, when the registration has a
  document.
\<close>

definition set_doc_id :: "BaseRegistration \<Rightarrow> BaseRegistration" where
  "set_doc_id registration =
     (case documents registration of
        [] \<Rightarrow> registration
      | d # _ \<Rightarrow> registration\<lparr>doc_id := Some (DocumentPkey (d_id d))\<rparr>)"

text \<open>
  \<^verbatim>\<open>find_by_mhr_number\<close>. \<open>format_mhr_number\<close> stands for
  \<^verbatim>\<open>model_utils.format_mhr_number\<close>, which is not part of this module. An exception of the
  query is raised again as a \<^verbatim>\<open>DatabaseException\<close>.
\<close>

definition find_by_mhr_number ::
  "(string \<Rightarrow> string) \<Rightarrow> store \<Rightarrow> string \<Rightarrow> string option \<Rightarrow> bool
     \<Rightarrow> MhrRegistrationTypes option \<Rightarrow> error + BaseRegistration" where
  "find_by_mhr_number format_mhr_number st mhr_num acct is_staff reg_type =
     (let formatted_mhr = format_mhr_number mhr_num;
          wanted_type = (case reg_type of None \<Rightarrow> MHREG | Some t \<Rightarrow> t);
          found =
            (if formatted_mhr \<noteq> [] then
               (if wanted_type = MHREG then
                  one_or_none (filter (\<lambda>r. mhr_number r = formatted_mhr
                                          \<and> is_root_type (registration_type r))
                                 (registrations st))
                else
                  one_or_none (filter (\<lambda>r. mhr_number r = formatted_mhr
                                          \<and> registration_type r = wanted_type)
                                 (registrations st)))
             else Inr None)
      in case found of
           Inl e \<Rightarrow> Inl (DatabaseException e)
         | Inr None \<Rightarrow> Inl NOT_FOUND
         | Inr (Some row) \<Rightarrow>
             if \<not> is_staff \<and> truthy acct \<and> account_id row \<noteq> acct
                \<and> \<not> extra_registration_exists st formatted_mhr acct
             then Inl UNAUTHORIZED
             else Inr (set_doc_id (loaded row)))"

text \<open>
  \<^verbatim>\<open>find_all_by_mhr_number\<close> attaches the change registrations in the order of their
  timestamps (\<^verbatim>\<open>order_by(registration_ts)\<close>; \<open>sort_key\<close> keeps rows with equal timestamps
  in the order of the table).
\<close>

definition find_all_by_mhr_number ::
  "(string \<Rightarrow> string) \<Rightarrow> store \<Rightarrow> string \<Rightarrow> string option \<Rightarrow> bool
     \<Rightarrow> error + BaseRegistration" where
  "find_all_by_mhr_number format_mhr_number st mhr_num acct is_staff =
     (case find_by_mhr_number format_mhr_number st mhr_num acct is_staff None of
        Inl e \<Rightarrow> Inl e
      | Inr base_reg \<Rightarrow>
          Inr (base_reg\<lparr>change_registrations :=
                 sort_key registration_ts
                   (filter (\<lambda>r. mhr_number r = format_mhr_number mhr_num
                               \<and> \<not> is_root_type (registration_type r))
                      (registrations st))\<rparr>))"

subsection \<open>Pay and save\<close>

text \<open>
  The payment reference \<^verbatim>\<open>pay_ref\<close>: \<^verbatim>\<open>pay_ref["invoiceId"]\<close> raises \<^verbatim>\<open>KeyError\<close>
  when the key is absent (\<open>None\<close>), and the value may itself be \<^verbatim>\<open>None\<close>
  (\<open>Some None\<close>).
\<close>

record pay_ref =
  ccPayment :: bool
  invoiceId :: "string option option"
  receipt :: "string option"



text \<open>
  What the \<^verbatim>\<open>try\<close> block runs on: the outcome of \<^verbatim>\<open>registration.save()\<close> (\<open>None\<close>
  where it returns), Python's \<^verbatim>\<open>int(...)\<close> on the invoice id (\<open>None\<close> where it raises
  \<^verbatim>\<open>ValueError\<close>), the draft \<^verbatim>\<open>MhrDraft.create_from_mhreg_json\<close> builds and saves, and
  \<^verbatim>\<open>MhrRegistration.is_exre_transfer\<close>, which \<^verbatim>\<open>pay_and_save_transfer\<close> calls and the
  class as it stands in this module does not define.
\<close>

record store_service =
  registration_save :: "MhrRegistration \<Rightarrow> error option"
  py_int :: "string \<Rightarrow> int option"
  create_draft :: "error + MhrDraft"
  is_exre_transfer :: "BaseRegistration \<Rightarrow> json_data \<Rightarrow> bool"


text \<open>
  \<^verbatim>\<open>registration.pay_invoice_id = int(invoice_id)\<close> and
  \<^verbatim>\<open>registration.pay_path = pay_ref["receipt"]\<close>, the two lines every \<^verbatim>\<open>try\<close> block has
  between the builder and the save.
\<close>

definition set_payment :: "store_service \<Rightarrow> string option \<Rightarrow> pay_ref \<Rightarrow> MhrRegistration
    \<Rightarrow> error + MhrRegistration" where
  "set_payment svc invoice_id ref registration =
     (case invoice_id of
        None \<Rightarrow> Inl TypeError
      | Some invoice \<Rightarrow>
          (case py_int svc invoice of
             None \<Rightarrow> Inl ValueError
           | Some n \<Rightarrow>
               (case receipt ref of
                  None \<Rightarrow> Inl KeyError
                | Some path \<Rightarrow>
                    Inr (registration\<lparr>pay_invoice_id := Some n, pay_path := Some path\<rparr>))))"


text \<open>The \<^verbatim>\<open>try\<close> block of \<^verbatim>\<open>pay_and_save_registration\<close>.\<close>

definition try_save_registration ::
  "store_service \<Rightarrow> collaborators \<Rightarrow> json_data \<Rightarrow> MhrDraft \<Rightarrow> string option \<Rightarrow> string option
     \<Rightarrow> string option \<Rightarrow> pay_ref \<Rightarrow> error + MhrRegistration" where
  "try_save_registration svc env data draft acct usr invoice_id ref =
     (case create_new_from_json env data draft acct usr of
        Inl e \<Rightarrow> Inl e
      | Inr registration \<Rightarrow>
          (case set_payment svc invoice_id ref registration of
             Inl e \<Rightarrow> Inl e
           | Inr registration1 \<Rightarrow>
               (case registration_save svc registration1 of
                  Some e \<Rightarrow> Inl e
                | None \<Rightarrow> Inr registration1)))"




subsection \<open>\<^verbatim>\<open>new_registration_json\<close>\<close>

text \<open>
  A JSON value, and a dict as the list of its items in insertion order: assigning to a
  key that is present keeps its place, a new key goes last.
\<close>

datatype json =
    JNull | JBool bool | JInt int | JStr string
  | JList "json list" | JDict "(string \<times> json) list"










section \<open>Scenarios\<close>

text \<open>Concrete aggregates, payloads and collaborators, for the scenarios of the properties.\<close>

definition example_note ::
  "MhrDocumentTypes \<Rightarrow> MhrNoteStatusTypes \<Rightarrow> timestamp option \<Rightarrow> MhrNote" where
  "example_note doc_type st expiry =
     \<lparr>n_registration_id = 1, n_document_id = 1, n_document_type = doc_type, destroyed = ''N'',
      n_status_type = st, remarks = [], n_change_registration_id = 1, expiry_date = expiry\<rparr>"

definition example_document :: "int \<Rightarrow> MhrDocumentTypes \<Rightarrow> MhrDocument" where
  "example_document rid doc_type =
     \<lparr>d_id = rid, document_id = ''10000000'', document_registration_number = ''00500000'',
      d_document_type = doc_type, d_registration_id = rid\<rparr>"

text \<open>A row of the key \<^verbatim>\<open>000900\<close> and the account \<^verbatim>\<open>PS12345\<close>, registered at the time of its id.\<close>

definition example_registration ::
  "int \<Rightarrow> MhrRegistrationTypes \<Rightarrow> MhrNote list \<Rightarrow> MhrOwnerGroup list \<Rightarrow> MhrRegistration" where
  "example_registration rid rt ns gs =
     \<lparr>reg_id = rid, registration_ts = rid, mhr_number = ''000900'', account_id = Some ''PS12345'',
      client_reference_id = None, pay_invoice_id = None, pay_path = None, user_id = None,
      draft_id = None, registration_type = rt, status_type = REG_ACTIVE, locations = [],
      documents = [example_document rid REG_101], reg_notes = ns, owner_groups = gs,
      descriptions = [], sections = [],
      draft_number = None, doc_reg_number = None, doc_pkey = None, doc_id = None\<rparr>"

text \<open>A chain root with id 1, the given owner groups and the given chain.\<close>

definition example_base :: "MhrOwnerGroup list \<Rightarrow> MhrRegistration list \<Rightarrow> BaseRegistration" where
  "example_base gs chain =
     (loaded (example_registration 1 MHREG [] gs))\<lparr>change_registrations := chain\<rparr>"

definition business_owner :: "string \<Rightarrow> owner_json" where
  "business_owner name =
     \<lparr>oj_partyType = Some OWNER_BUS, oj_individualName = None, oj_organizationName = Some name,
      oj_deathCertificateNumber = None, oj_deathDateTime = None\<rparr>"

definition common_group_json :: "int \<Rightarrow> string \<Rightarrow> int \<Rightarrow> int \<Rightarrow> owner_group_json" where
  "common_group_json gid name num den =
     \<lparr>gj_groupId = Some gid, gj_owners = Some [business_owner name], gj_type = COMMON,
      gj_interest = Some ''UNDIVIDED'', gj_interestNumerator = Some num,
      gj_interestDenominator = Some den\<rparr>"

definition sole_group_json :: "int \<Rightarrow> string \<Rightarrow> owner_group_json" where
  "sole_group_json gid name =
     \<lparr>gj_groupId = Some gid, gj_owners = Some [business_owner name], gj_type = SOLE,
      gj_interest = None, gj_interestNumerator = None, gj_interestDenominator = None\<rparr>"

definition empty_payload :: json_data where
  "empty_payload =
     \<lparr>documentId = None, clientReferenceId = None, registrationType = None, documentType = None,
      transferDocumentType = None, amendment = False, extension = False, ownerGroups = None,
      addOwnerGroups = None, deleteOwnerGroups = None, location = None, newLocation = None,
      description = None, json_note = None\<rparr>"

text \<open>
  The payload of the new-registration scenario: two tenants-in-common groups of business
  owners with the interests 1/2 and 5/10, one location, one description.
\<close>

definition new_registration_payload :: json_data where
  "new_registration_payload =
     empty_payload
       \<lparr>ownerGroups := Some [common_group_json 1 ''A LTD'' 1 2, common_group_json 2 ''B LTD'' 5 10],
        location := Some ''location'',
        description := Some \<lparr>dj_payload = ''description'', dj_sections = Some [''section'']\<rparr>\<rparr>"

text \<open>Collaborators whose constructors keep the payload and raise on a missing one.\<close>

definition example_collaborators :: "int \<Rightarrow> collaborators" where
  "example_collaborators new_id =
     \<lparr>clock_now_ts = 1000, compute_permit_expiry = 2000,
      get_change_generated_values =
        \<lparr>gv_id = new_id, gv_doc_reg_number = ''00500001'', gv_doc_pkey = 300,
         gv_doc_id = ''10000001'', gv_draft_number = ''D0001'', gv_draft_id = 400\<rparr>,
      MhrDraft_find_draft = None,
      STAFF_ROLE = ''ppr_staff'',
      MhrLocation_create_from_json =
        (\<lambda>j rid. case j of None \<Rightarrow> Inl TypeError
                   | Some p \<Rightarrow> Inr \<lparr>l_registration_id = rid, l_payload = p\<rparr>),
      MhrDescription_create_from_json =
        (\<lambda>j rid. case j of None \<Rightarrow> Inl TypeError
                   | Some d \<Rightarrow> Inr \<lparr>ds_registration_id = rid, ds_payload = dj_payload d\<rparr>),
      MhrSection_create_from_json = (\<lambda>p rid. Inr \<lparr>s_registration_id = rid, s_payload = p\<rparr>),
      setup_permit_extension_location = (\<lambda>base_reg registration j. Inr registration)\<rparr>"

definition example_draft :: MhrDraft where
  "example_draft = \<lparr>dr_id = 400, dr_mhr_number = ''000900''\<rparr>"

text \<open>Two ACTIVE tenants-in-common groups with the interests 1/2 and 1/3.\<close>

definition half_group :: MhrOwnerGroup where
  "half_group = MhrOwnerGroup_create_from_json (common_group_json 1 ''A LTD'' 1 2) 200"

definition third_group :: MhrOwnerGroup where
  "third_group = MhrOwnerGroup_create_from_json (common_group_json 2 ''B LTD'' 1 3) 200"

text \<open>
  A chain of two change registrations that each carry an ACTIVE caution: the earlier one
  expired at time 50, the later one expires at time 200.
\<close>

definition two_cautions :: BaseRegistration where
  "two_cautions =
     example_base []
       [example_registration 2 REG_NOTE [example_note CAU NOTE_ACTIVE (Some 50)] [],
        example_registration 3 REG_NOTE [example_note CAU NOTE_ACTIVE (Some 200)] []]"

text \<open>A chain whose only change registration carries an ACTIVE transport permit.\<close>

definition open_permit :: BaseRegistration where
  "open_permit =
     example_base []
       [example_registration 2 PERMIT [example_note REG_103 NOTE_ACTIVE (Some 50)] []]"

text \<open>
  A chain with two transport permit notes, the permit (expiry 400) and its amendment
  (expiry 500), followed by a caution.
\<close>

definition two_permits :: BaseRegistration where
  "two_permits =
     example_base []
       [example_registration 2 PERMIT [example_note REG_103 NOTE_ACTIVE (Some 400)] [],
        example_registration 3 AMENDMENT [example_note AMEND_PERMIT NOTE_ACTIVE (Some 500)] [],
        example_registration 4 REG_NOTE [example_note CAU NOTE_ACTIVE (Some 600)] []]"

definition amendment_payload :: json_data where
  "amendment_payload = empty_payload\<lparr>amendment := True, newLocation := Some ''new location''\<rparr>"

text \<open>A chain root whose only owner group has the group id 1.\<close>

definition sole_group :: "int \<Rightarrow> MhrOwnerGroup" where
  "sole_group gid =
     (MhrOwnerGroup_create_from_json (sole_group_json gid ''A LTD'') 1)\<lparr>group_id := gid\<rparr>"




text \<open>
  A transfer due to death: the root's group 1 is owned by an individual, and the payload
  deletes the group, naming the owner with a death certificate and a time of death.
\<close>

definition individual_group :: MhrOwnerGroup where
  "individual_group =
     (sole_group 1)
       \<lparr>owners := [\<lparr>p_registration_id = 1, p_change_registration_id = 1, party_type = OWNER_IND,
                   p_status_type = OWNER_ACTIVE, individual_name = Some ''JOHN SMITH'',
                   organization_name = None, death_cert_number = None, death_ts = None\<rparr>]\<rparr>"

definition deceased_owner :: owner_json where
  "deceased_owner =
     \<lparr>oj_partyType = Some OWNER_IND, oj_individualName = Some ''JOHN SMITH'',
      oj_organizationName = None, oj_deathCertificateNumber = Some ''DC-0001'',
      oj_deathDateTime = Some 900\<rparr>"

definition death_delete :: owner_group_json where
  "death_delete = (sole_group_json 1 ''x'')\<lparr>gj_owners := Some [deceased_owner]\<rparr>"

definition death_transfer_payload :: json_data where
  "death_transfer_payload =
     empty_payload\<lparr>registrationType := Some TRAND, deleteOwnerGroups := Some [death_delete]\<rparr>"

definition death_transfer_base :: BaseRegistration where
  "death_transfer_base =
     example_base [individual_group] [example_registration 2 TRANS [] [sole_group 2]]"

text \<open>
  A store with one chain root of the key \<^verbatim>\<open>000900\<close> and two change registrations, and a
  grant of that key to the account \<^verbatim>\<open>EXTRA\<close>.
\<close>

definition one_root_store :: store where
  "one_root_store =
     \<lparr>registrations = [example_registration 1 MHREG [] [],
                       example_registration 3 TRANS [] [],
                       example_registration 2 PERMIT [] []],
      extra_registrations = [(''000900'', ''EXTRA'')]\<rparr>"





subsection \<open>Predicates of the statements\<close>

text \<open>
  The change registration's first note is an ACTIVE caution: the test of the loop of
  \<^verbatim>\<open>set_caution\<close>.
\<close>

definition is_active_caution :: "MhrRegistration \<Rightarrow> bool" where
  "is_active_caution reg =
     (case reg_notes reg of
        [] \<Rightarrow> False
      | n # _ \<Rightarrow> is_caution_doc (n_document_type n) \<and> n_status_type n = NOTE_ACTIVE)"

text \<open>
  The owner group is superseded by the registration \<open>new_reg_id\<close>: it is PREVIOUS and
  stamped with that id, and so is every one of its owners.
\<close>

definition superseded_by :: "int \<Rightarrow> MhrOwnerGroup \<Rightarrow> bool" where
  "superseded_by new_reg_id g =
     (g_status_type g = PREVIOUS \<and> g_change_registration_id g = new_reg_id
      \<and> list_all (\<lambda>owner. p_status_type owner = PREVIOUS
                       \<and> p_change_registration_id owner = new_reg_id) (owners g))"

text \<open>All delete instructions of a payload, applied in order to one owner group.\<close>

abbreviation remove_all ::
  "int \<Rightarrow> MhrRegistrationTypes option \<Rightarrow> owner_group_json list \<Rightarrow> MhrOwnerGroup
     \<Rightarrow> MhrOwnerGroup" where
  "remove_all n rt ds g \<equiv> foldl (\<lambda>g d. remove_group d g n rt) g ds"

text \<open>The chain roots and the chain the store holds for a business key.\<close>

definition chain_roots :: "(string \<Rightarrow> string) \<Rightarrow> store \<Rightarrow> string \<Rightarrow> MhrRegistration list" where
  "chain_roots format_mhr_number st mhr_num =
     filter (\<lambda>r. mhr_number r = format_mhr_number mhr_num \<and> is_root_type (registration_type r))
       (registrations st)"

definition chain_of :: "(string \<Rightarrow> string) \<Rightarrow> store \<Rightarrow> string \<Rightarrow> MhrRegistration list" where
  "chain_of format_mhr_number st mhr_num =
     sort_key registration_ts
       (filter (\<lambda>r. mhr_number r = format_mhr_number mhr_num
                   \<and> \<not> is_root_type (registration_type r))
          (registrations st))"

text \<open>
  The caller is refused the record: it is not staff, it names an account, the account is
  not the root's, and no extra-registration grant exists for the account and the key.
\<close>

definition refused :: "store \<Rightarrow> string \<Rightarrow> string option \<Rightarrow> bool \<Rightarrow> MhrRegistration \<Rightarrow> bool" where
  "refused st formatted_mhr acct is_staff root_reg =
     (\<not> is_staff \<and> truthy acct \<and> account_id root_reg \<noteq> acct
      \<and> \<not> extra_registration_exists st formatted_mhr acct)"

section \<open>Properties\<close>

lemmas example_defs =
  example_note_def example_document_def example_registration_def example_base_def
  business_owner_def common_group_json_def sole_group_json_def empty_payload_def
  new_registration_payload_def example_collaborators_def example_draft_def loaded_def
  MhrRegistration.extend_def BaseRegistration.fields_def

subsection \<open>The active-caution check\<close>

lemma set_caution_loop_skip:
  "\<forall>reg\<in>set pre. \<not> is_active_caution reg \<Longrightarrow>
   set_caution_loop now acc (pre @ rest) = set_caution_loop now acc rest"
  by (induction pre) (auto simp: is_active_caution_def split: list.splits)

text \<open>
  What the loop computes: the earliest ACTIVE caution with an expiry date decides, when
  no ACTIVE caution stands before it in the chain; whatever follows it is not read.
\<close>

lemma set_caution_first_dated_decides:
  assumes "change_registrations self = pre @ reg # post"
    and "\<forall>r\<in>set pre. \<not> is_active_caution r"
    and "reg_notes reg = n # ns" "is_caution_doc (n_document_type n)"
    and "n_status_type n = NOTE_ACTIVE" "expiry_date n = Some e"
  shows "set_caution now self = (e > now)"
  using assms by (simp add: set_caution_def set_caution_loop_skip)

text \<open>A chain on which every ACTIVE caution has an expiry date that has passed has no caution.\<close>

lemma set_caution_loop_all_expired:
  "\<forall>reg\<in>set chain. \<forall>n ns. reg_notes reg = n # ns \<and> is_caution_doc (n_document_type n)
       \<and> n_status_type n = NOTE_ACTIVE \<longrightarrow> (\<exists>e. expiry_date n = Some e \<and> e \<le> now)
   \<Longrightarrow> set_caution_loop now False chain = False"
  by (induction chain) (auto split: list.splits option.splits)

text \<open>
  C1. Caution precedence: on a chain with two caution notes, an earlier one whose expiry
  date has passed and a later ACTIVE one whose expiry date is in the future,
  \<^verbatim>\<open>set_caution\<close> should return true. When the earlier note still has the status ACTIVE it
  does not: at time 100 the earlier caution (expired at 50) ends the loop with false, and
  the later caution, in force until 200, is never read.
\<close>

theorem set_caution_expired_caution_hides_later:
  "set_caution 100 two_cautions = False"
  by (simp add: set_caution_def two_cautions_def example_defs is_caution_doc_def)

subsection \<open>The exemption closes an open permit\<close>

lemma first_note_close_permit:
  "first_note reg = Some n \<Longrightarrow> is_permit_doc (n_document_type n) \<Longrightarrow> n_status_type n = NOTE_ACTIVE
   \<Longrightarrow> first_note (close_permit_note new_reg_id reg)
       = Some (n\<lparr>n_status_type := CANCELLED, n_change_registration_id := new_reg_id\<rparr>)"
  by (auto simp: first_note_def close_permit_note_def split: list.splits)

text \<open>
  C2. \<^verbatim>\<open>save_exemption\<close> with the new registration's id sets the status of the chain root
  to EXEMPT, and for every change registration of the chain whose note is an ACTIVE
  transport permit note (\<^verbatim>\<open>REG_103\<close>, \<^verbatim>\<open>REG_103E\<close> or \<^verbatim>\<open>AMEND_PERMIT\<close>) it sets the
  status of that note to CANCELLED and its \<^verbatim>\<open>change_registration_id\<close> to the new id; the
  note is otherwise unchanged.
\<close>

theorem save_exemption_closes_permits:
  "status_type (save_exemption new_reg_id self) = EXEMPT \<and>
   length (change_registrations (save_exemption new_reg_id self))
     = length (change_registrations self) \<and>
   (\<forall>i < length (change_registrations self). \<forall>n.
       first_note (change_registrations self ! i) = Some n \<and> is_permit_doc (n_document_type n)
         \<and> n_status_type n = NOTE_ACTIVE \<longrightarrow>
       first_note (change_registrations (save_exemption new_reg_id self) ! i)
         = Some (n\<lparr>n_status_type := CANCELLED, n_change_registration_id := new_reg_id\<rparr>))"
  by (simp add: save_exemption_def first_note_close_permit)

theorem save_exemption_closes_permits_witness:
  "status_type (save_exemption 7 open_permit) = EXEMPT
   \<and> first_note (change_registrations (save_exemption 7 open_permit) ! 0)
      = Some ((example_note REG_103 NOTE_ACTIVE (Some 50))
                \<lparr>n_status_type := CANCELLED, n_change_registration_id := 7\<rparr>)"
  using save_exemption_closes_permits[of 7 open_permit]
  by (simp add: open_permit_def example_defs is_permit_doc_def first_note_def)

subsection \<open>A new registration keeps the interests of its payload\<close>

lemma create_new_groups_loop_ok:
  "\<forall>gj\<in>set gjs. gj_owners gj \<noteq> None \<Longrightarrow>
   \<exists>gs. create_new_groups_loop rid sq gjs = Inr gs
     \<and> map group_id gs = map (\<lambda>i. sq + 1 + int i) [0..<length gjs]
     \<and> map g_status_type gs = map (\<lambda>gj. OWNER_ACTIVE) gjs
     \<and> map interest_numerator gs = map (\<lambda>gj. map_option PyInt (gj_interestNumerator gj)) gjs
     \<and> map interest_denominator gs = map gj_interestDenominator gjs
     \<and> map tenancy_type gs = map gj_type gjs"
proof (induction gjs arbitrary: sq)
  case Nil
  then show ?case by simp
next
  case (Cons gj gjs)
  from Cons.prems obtain ojs where ojs: "gj_owners gj = Some ojs" by auto
  from Cons.prems have "\<forall>g\<in>set gjs. gj_owners g \<noteq> None" by simp
  from Cons.IH[OF this, of "sq + 1"] obtain gs where
    gs: "create_new_groups_loop rid (sq + 1) gjs = Inr gs"
        "map group_id gs = map (\<lambda>i. sq + 1 + 1 + int i) [0..<length gjs]"
        "map g_status_type gs = map (\<lambda>gj. OWNER_ACTIVE) gjs"
        "map interest_numerator gs = map (\<lambda>gj. map_option PyInt (gj_interestNumerator gj)) gjs"
        "map interest_denominator gs = map gj_interestDenominator gjs"
        "map tenancy_type gs = map gj_type gjs"
    by blast
  have idx: "map (\<lambda>i. sq + 1 + int i) [0..<length (gj # gjs)]
           = (sq + 1) # map (\<lambda>i. sq + 1 + 1 + int i) [0..<length gjs]"
    by (simp add: upt_rec[of 0] map_Suc_upt[symmetric] del: upt_Suc)
  show ?case
    using ojs gs idx by (simp add: MhrOwnerGroup_create_from_json_def)
qed

text \<open>
  C3, as the code has it. \<^verbatim>\<open>create_new_from_json\<close> on a payload with owner groups (each
  with its owners), a location and a description yields an ACTIVE registration with one
  document of the new-registration type \<^verbatim>\<open>REG_101\<close>, one location, one description, and
  one ACTIVE owner group per group of the payload, numbered 1, 2, ... in payload order,
  whose tenancy type and interest are those of the payload: nothing is normalized. For the
  two tenants-in-common groups with the interests 1/2 and 5/10 the aggregate holds 1/2 and
  5/10.
\<close>

theorem create_new_from_json_keeps_interests:
  assumes groups: "ownerGroups data = Some gjs"
    and owners: "\<forall>gj\<in>set gjs. gj_owners gj \<noteq> None"
    and loc: "location data = Some l"
        "MhrLocation_create_from_json env (Some l) (gv_id (get_change_generated_values env)) = Inr loc"
    and desc: "MhrDescription_create_from_json env (description data)
                 (gv_id (get_change_generated_values env)) = Inr desc"
    and secs: "get_sections env data (gv_id (get_change_generated_values env)) = Inr secs"
  shows "\<exists>registration. create_new_from_json env data draft acct usr = Inr registration
      \<and> status_type registration = REG_ACTIVE
      \<and> map d_document_type (documents registration) = [REG_101]
      \<and> locations registration = [loc]
      \<and> descriptions registration = [desc]
      \<and> map group_id (owner_groups registration) = map (\<lambda>i. 1 + int i) [0..<length gjs]
      \<and> map g_status_type (owner_groups registration) = map (\<lambda>gj. OWNER_ACTIVE) gjs
      \<and> map tenancy_type (owner_groups registration) = map gj_type gjs
      \<and> map interest_numerator (owner_groups registration)
           = map (\<lambda>gj. map_option PyInt (gj_interestNumerator gj)) gjs
      \<and> map interest_denominator (owner_groups registration) = map gj_interestDenominator gjs"
proof -
  from create_new_groups_loop_ok[OF owners, of "gv_id (get_change_generated_values env)" 0]
  obtain gs where
    gs: "create_new_groups_loop (gv_id (get_change_generated_values env)) 0 gjs = Inr gs"
        "map group_id gs = map (\<lambda>i. 0 + 1 + int i) [0..<length gjs]"
        "map g_status_type gs = map (\<lambda>gj. OWNER_ACTIVE) gjs"
        "map interest_numerator gs = map (\<lambda>gj. map_option PyInt (gj_interestNumerator gj)) gjs"
        "map interest_denominator gs = map gj_interestDenominator gjs"
        "map tenancy_type gs = map gj_type gjs"
    by blast
  have "create_new_groups (gv_id (get_change_generated_values env)) data = Inr gs"
    using groups gs(1) by (simp add: create_new_groups_def)
  then show ?thesis
    using loc desc secs gs(2-)
    by (simp add: create_new_from_json_def Let_def MhrDocument_create_from_json_def)
qed

theorem create_new_from_json_keeps_interests_witness:
  "\<exists>registration.
      create_new_from_json (example_collaborators 200) new_registration_payload example_draft
        (Some ''PS12345'') (Some ''user'') = Inr registration
      \<and> status_type registration = REG_ACTIVE
      \<and> map d_document_type (documents registration) = [REG_101]
      \<and> map group_id (owner_groups registration) = [1, 2]
      \<and> map g_status_type (owner_groups registration) = [OWNER_ACTIVE, OWNER_ACTIVE]
      \<and> map tenancy_type (owner_groups registration) = [COMMON, COMMON]
      \<and> map interest_numerator (owner_groups registration) = [Some (PyInt 1), Some (PyInt 5)]
      \<and> map interest_denominator (owner_groups registration) = [Some 2, Some 10]"
proof -
  let ?gjs = "[common_group_json 1 ''A LTD'' 1 2, common_group_json 2 ''B LTD'' 5 10]"
  have groups: "ownerGroups new_registration_payload = Some ?gjs"
    by (simp add: new_registration_payload_def)
  have owners: "\<forall>gj\<in>set ?gjs. gj_owners gj \<noteq> None"
    by (simp add: common_group_json_def)
  have loc: "location new_registration_payload = Some ''location''"
    by (simp add: new_registration_payload_def)
  have mk_loc: "MhrLocation_create_from_json (example_collaborators 200) (Some ''location'')
        (gv_id (get_change_generated_values (example_collaborators 200)))
      = Inr \<lparr>l_registration_id = 200, l_payload = ''location''\<rparr>"
    by (simp add: example_collaborators_def)
  have mk_desc: "MhrDescription_create_from_json (example_collaborators 200)
        (description new_registration_payload)
        (gv_id (get_change_generated_values (example_collaborators 200)))
      = Inr \<lparr>ds_registration_id = 200, ds_payload = ''description''\<rparr>"
    by (simp add: example_collaborators_def new_registration_payload_def)
  have mk_secs: "get_sections (example_collaborators 200) new_registration_payload
        (gv_id (get_change_generated_values (example_collaborators 200)))
      = Inr [\<lparr>s_registration_id = 200, s_payload = ''section''\<rparr>]"
    by (simp add: get_sections_def example_collaborators_def new_registration_payload_def)
  show ?thesis
    using create_new_from_json_keeps_interests[OF groups owners loc mk_loc mk_desc mk_secs,
      of example_draft "Some ''PS12345''" "Some ''user''"]
    by (clarsimp simp add: common_group_json_def)
qed

text \<open>
  The claim as the spec states it, with the interests normalized to the denominator 10
  and the numerators 5 and 5, fails at the scenario's payload.
\<close>

theorem create_new_from_json_not_normalized:
  "\<not> (\<exists>registration.
      create_new_from_json (example_collaborators 200) new_registration_payload example_draft
        (Some ''PS12345'') (Some ''user'') = Inr registration
      \<and> map interest_denominator (owner_groups registration) = [Some 10, Some 10]
      \<and> map interest_numerator (owner_groups registration) = [Some (PyInt 5), Some (PyInt 5)])"
  by (simp add: example_defs create_new_from_json_def create_new_groups_def get_sections_def
      MhrOwnerGroup_create_from_json_def Let_def)

subsection \<open>Rescaling an interest can leave a fraction\<close>

text \<open>
  C10. For the two ACTIVE tenants-in-common groups with the interests 1/2 and 1/3,
  \<^verbatim>\<open>adjust_group_interest\<close> takes 3 as the common denominator and stores
  \<^verbatim>\<open>3 / 2 * 1\<close>, the float 1.5, as the numerator of the first group: the true division
  leaves a numerator that is not an integer.
\<close>

theorem adjust_group_interest_fractional:
  "\<exists>groups. adjust_group_interest True [half_group, third_group] = Inr groups
     \<and> map interest_denominator groups = [Some 3, Some 3]
     \<and> map interest_numerator groups = [Some (PyFloat (3 / 2)), Some (PyInt 1)]
     \<and> (3 / 2 :: rat) \<notin> \<int>"
proof -
  have "(3 / 2 :: rat) \<notin> \<int>"
  proof
    assume "(3 / 2 :: rat) \<in> \<int>"
    then obtain k :: int where "(3 / 2 :: rat) = of_int k" by (auto elim: Ints_cases)
    then have "(3::rat) = of_int (2 * k)" by simp
    then have "(3::int) = 2 * k" by (metis of_int_eq_iff of_int_numeral)
    then show False by presburger
  qed
  moreover have "adjust_group_interest True [half_group, third_group]
      = Inr [half_group\<lparr>interest_denominator := Some 3,
                        interest_numerator := Some (PyFloat (3 / 2))\<rparr>,
             third_group]"
    by (simp add: adjust_group_interest_def adjust_group_def half_group_def third_group_def
        MhrOwnerGroup_create_from_json_def common_group_json_def py_positive_def rescale_def
        Fract_of_int_quotient)
  ultimately show ?thesis
    by (simp add: half_group_def third_group_def MhrOwnerGroup_create_from_json_def
        common_group_json_def)
qed

subsection \<open>A permit amendment reuses the expiry of the open permit\<close>

lemma amendment_expiry_loop_append:
  "amendment_expiry_loop (xs @ ys) new_note
     = amendment_expiry_loop ys (amendment_expiry_loop xs new_note)"
  by (induction xs arbitrary: new_note) simp_all

lemma amendment_expiry_loop_no_match:
  "\<forall>r\<in>set rs. \<not> has_open_permit_note r \<Longrightarrow> amendment_expiry_loop rs new_note = new_note"
  by (induction rs arbitrary: new_note) (auto split: list.splits)

lemma amendment_expiry_loop_last_match:
  assumes "first_note reg = Some n" "has_open_permit_note reg"
    and "\<forall>r\<in>set post. \<not> has_open_permit_note r"
  shows "amendment_expiry_loop (pre @ reg # post) new_note
           = (amendment_expiry_loop pre new_note)\<lparr>expiry_date := expiry_date n\<rparr>"
  using assms
  by (auto simp: amendment_expiry_loop_append amendment_expiry_loop_no_match first_note_def
      split: list.splits)

lemma amendment_expiry_loop_frame:
  "n_document_type (amendment_expiry_loop rs new_note) = n_document_type new_note
   \<and> n_status_type (amendment_expiry_loop rs new_note) = n_status_type new_note
   \<and> n_change_registration_id (amendment_expiry_loop rs new_note)
       = n_change_registration_id new_note"
  by (induction rs arbitrary: new_note) (auto split: list.splits)

text \<open>
  C4. When the chain holds an ACTIVE note with the expiry date \<open>E\<close> whose document type
  is a permit, a permit extension or a permit amendment, and no later change registration
  of the chain holds another such note, \<^verbatim>\<open>create_permit_from_json\<close> with the amendment
  flag set builds a registration whose one note is an ACTIVE \<^verbatim>\<open>AMEND_PERMIT\<close> note with
  the expiry date \<open>E\<close>: the expiry of the most recent such note of the chain, not the
  freshly computed one. (The builder needs the new location to be built.)
\<close>

theorem create_permit_amendment_reuses_expiry:
  assumes amend: "amendment data"
    and chain: "change_registrations base_reg = pre @ reg # post"
    and first: "first_note reg = Some n" "n_status_type n = NOTE_ACTIVE" "expiry_date n = Some E"
        "is_permit_doc (n_document_type n)"
    and latest: "\<forall>r\<in>set post. \<not> has_open_permit_note r"
    and loc: "MhrLocation_create_from_json env (newLocation data)
                (gv_id (get_change_generated_values env)) = Inr loc"
  shows "\<exists>registration data' new_note.
      create_permit_from_json env base_reg data acct usr = Inr (registration, data')
      \<and> reg_notes registration = [new_note]
      \<and> expiry_date new_note = Some E
      \<and> n_document_type new_note = AMEND_PERMIT
      \<and> n_status_type new_note = NOTE_ACTIVE
      \<and> n_change_registration_id new_note = reg_id registration
      \<and> registration_type registration = AMENDMENT"
proof -
  have open_note: "has_open_permit_note reg"
    using first by (auto simp: has_open_permit_note_def first_note_def split: list.splits)
  note loop = amendment_expiry_loop_last_match[OF first(1) open_note latest]
  show ?thesis
    using amend loc
    by (simp add: create_permit_from_json_def create_change_from_json_def Let_def chain loop
        first(3) amendment_expiry_loop_frame MhrDocument_create_from_json_def)
qed

theorem create_permit_amendment_reuses_expiry_witness:
  "compute_permit_expiry (example_collaborators 5) = 2000
   \<and> (\<exists>registration data' new_note.
        create_permit_from_json (example_collaborators 5) two_permits amendment_payload
          (Some ''PS12345'') (Some ''user'') = Inr (registration, data')
        \<and> reg_notes registration = [new_note]
        \<and> expiry_date new_note = Some 500)"
proof -
  have chain: "change_registrations two_permits
      = [example_registration 2 PERMIT [example_note REG_103 NOTE_ACTIVE (Some 400)] []]
        @ example_registration 3 AMENDMENT [example_note AMEND_PERMIT NOTE_ACTIVE (Some 500)] []
        # [example_registration 4 REG_NOTE [example_note CAU NOTE_ACTIVE (Some 600)] []]"
    by (simp add: two_permits_def example_defs)
  have first: "first_note (example_registration 3 AMENDMENT
                  [example_note AMEND_PERMIT NOTE_ACTIVE (Some 500)] [])
      = Some (example_note AMEND_PERMIT NOTE_ACTIVE (Some 500))"
    by (simp add: first_note_def example_registration_def)
  have latest: "\<forall>r\<in>set [example_registration 4 REG_NOTE [example_note CAU NOTE_ACTIVE (Some 600)] []].
      \<not> has_open_permit_note r"
    by (simp add: has_open_permit_note_def example_registration_def example_note_def
        is_permit_doc_def)
  have loc: "MhrLocation_create_from_json (example_collaborators 5) (newLocation amendment_payload)
        (gv_id (get_change_generated_values (example_collaborators 5)))
      = Inr \<lparr>l_registration_id = 5, l_payload = ''new location''\<rparr>"
    by (simp add: example_collaborators_def amendment_payload_def empty_payload_def)
  have "\<exists>registration data' new_note.
        create_permit_from_json (example_collaborators 5) two_permits amendment_payload
          (Some ''PS12345'') (Some ''user'') = Inr (registration, data')
        \<and> reg_notes registration = [new_note]
        \<and> expiry_date new_note = Some 500"
    using create_permit_amendment_reuses_expiry[OF _ chain first _ _ _ latest loc,
        of 500 "Some ''PS12345''" "Some ''user''"]
    by (simp add: amendment_payload_def empty_payload_def example_note_def is_permit_doc_def)
       blast
  then show ?thesis by (simp add: example_collaborators_def)
qed

subsection \<open>Supersession of owner groups\<close>

lemma update_deceased_loop_frame:
  "p_status_type (update_deceased_loop ojs owner) = p_status_type owner
   \<and> p_change_registration_id (update_deceased_loop ojs owner) = p_change_registration_id owner"
  by (induction ojs arbitrary: owner) (simp_all add: stamp_death_def)

lemma update_deceased_frame:
  "p_status_type (update_deceased ojs owner) = p_status_type owner
   \<and> p_change_registration_id (update_deceased ojs owner) = p_change_registration_id owner"
  by (cases ojs) (simp_all add: update_deceased_def update_deceased_loop_frame)

lemma remove_owner_previous:
  "p_status_type (remove_owner d n rt owner) = PREVIOUS
   \<and> p_change_registration_id (remove_owner d n rt owner) = n"
  by (simp add: remove_owner_def Let_def update_deceased_frame)

lemma remove_group_id [simp]: "group_id (remove_group d g n rt) = group_id g"
  by (simp add: remove_group_def)

lemma remove_group_match:
  "Some (group_id g) = gj_groupId d \<Longrightarrow> superseded_by n (remove_group d g n rt)"
  by (simp add: remove_group_def superseded_by_def list_all_iff remove_owner_previous)

lemma remove_group_stable:
  "superseded_by n g \<Longrightarrow> superseded_by n (remove_group d g n rt)"
  by (simp add: remove_group_def superseded_by_def list_all_iff remove_owner_previous)

lemma remove_group_other:
  "gj_groupId d \<noteq> Some (group_id g) \<Longrightarrow> remove_group d g n rt = g"
  by (auto simp add: remove_group_def)

lemma remove_all_id [simp]: "group_id (remove_all n rt ds g) = group_id g"
  by (induction ds arbitrary: g) simp_all

lemma remove_all_stable: "superseded_by n g \<Longrightarrow> superseded_by n (remove_all n rt ds g)"
  by (induction ds arbitrary: g) (simp_all add: remove_group_stable)

lemma remove_all_match:
  "d \<in> set ds \<Longrightarrow> Some (group_id g) = gj_groupId d \<Longrightarrow> superseded_by n (remove_all n rt ds g)"
proof (induction ds arbitrary: g)
  case Nil
  then show ?case by simp
next
  case (Cons d' ds)
  show ?case
  proof (cases "d = d'")
    case True
    with Cons.prems show ?thesis
      by (simp add: remove_all_stable remove_group_match)
  next
    case False
    with Cons.prems have "d \<in> set ds" by simp
    from Cons.IH[OF this, of "remove_group d' g n rt"] Cons.prems(2) show ?thesis by simp
  qed
qed

lemma remove_all_other:
  "\<forall>d\<in>set ds. gj_groupId d \<noteq> Some (group_id g) \<Longrightarrow> remove_all n rt ds g = g"
  by (induction ds arbitrary: g) (simp_all add: remove_group_other)

text \<open>
  When the delete instructions name different groups, a group meets the one instruction
  that names it and no other.
\<close>

lemma remove_all_unique:
  assumes "distinct (map gj_groupId ds)" "d \<in> set ds" "Some (group_id g) = gj_groupId d"
  shows "remove_all n rt ds g = remove_group d g n rt"
proof -
  from assms(2) obtain pre post where ds: "ds = pre @ d # post" by (auto dest: split_list)
  from assms(1,3) ds have pre: "\<forall>x\<in>set pre. gj_groupId x \<noteq> Some (group_id g)"
    and post: "\<forall>x\<in>set post. gj_groupId x \<noteq> Some (group_id g)"
    by (auto simp: image_iff)
  have "remove_all n rt ds g = remove_all n rt post (remove_group d (remove_all n rt pre g) n rt)"
    by (simp add: ds)
  also have "\<dots> = remove_all n rt post (remove_group d g n rt)"
    by (simp add: remove_all_other[OF pre])
  also have "\<dots> = remove_group d g n rt"
    using post by (intro remove_all_other) simp
  finally show ?thesis .
qed

lemma remove_groups_loop_root:
  "owner_groups (remove_groups_loop n rt ds self) = map (remove_all n rt ds) (owner_groups self)"
  by (induction ds arbitrary: self) (simp_all add: remove_groups_step_def comp_def)

lemma remove_groups_loop_chain:
  "change_registrations (remove_groups_loop n rt ds self)
     = map (\<lambda>reg. reg\<lparr>owner_groups := map (remove_all n rt ds) (owner_groups reg)\<rparr>)
         (change_registrations self)"
  by (induction ds arbitrary: self) (simp_all add: remove_groups_step_def comp_def)

lemma all_owner_groups_remove_groups_loop:
  "all_owner_groups (remove_groups_loop n rt ds self)
     = map (remove_all n rt ds) (all_owner_groups self)"
  by (simp add: all_owner_groups_def remove_groups_loop_root remove_groups_loop_chain
      map_concat comp_def)

text \<open>
  C5. For every delete instruction \<open>d\<close> of a transfer payload, \<^verbatim>\<open>remove_groups\<close> with
  the new registration's id leaves every owner group of the chain root and of the change
  registrations in its place, and each of them whose group id is the \<^verbatim>\<open>groupId\<close> of
  \<open>d\<close> ends superseded: PREVIOUS and stamped with the new id, as is every one of its
  owners. When the registration type is a death-transfer variant, each of those owners
  also carries the death metadata \<^verbatim>\<open>update_deceased\<close> takes from the owners of \<open>d\<close>
  (stated for delete instructions that name different groups, so that \<open>d\<close> is the one
  instruction the group meets).
\<close>

theorem remove_groups_supersedes:
  assumes deletes: "deleteOwnerGroups data = Some deletes" and d: "d \<in> set deletes"
  shows "\<exists>self'. remove_groups data new_reg_id self = Inr self'
     \<and> length (all_owner_groups self') = length (all_owner_groups self)
     \<and> (\<forall>i < length (all_owner_groups self).
           Some (group_id (all_owner_groups self ! i)) = gj_groupId d \<longrightarrow>
             superseded_by new_reg_id (all_owner_groups self' ! i)
             \<and> group_id (all_owner_groups self' ! i) = group_id (all_owner_groups self ! i)
             \<and> (is_transfer_due_to_death (registrationType data)
                  \<and> distinct (map gj_groupId deletes) \<longrightarrow>
                owners (all_owner_groups self' ! i)
                  = map (\<lambda>owner. update_deceased (gj_owners d)
                           (owner\<lparr>p_status_type := PREVIOUS,
                                  p_change_registration_id := new_reg_id\<rparr>))
                      (owners (all_owner_groups self ! i))))"
proof -
  let ?self' = "remove_groups_loop new_reg_id (registrationType data) deletes self"
  have run: "remove_groups data new_reg_id self = Inr ?self'"
    using deletes by (simp add: remove_groups_def)
  have all: "all_owner_groups ?self'
      = map (remove_all new_reg_id (registrationType data) deletes) (all_owner_groups self)"
    by (rule all_owner_groups_remove_groups_loop)
  have death: "owners (remove_all new_reg_id (registrationType data) deletes g)
        = map (\<lambda>owner. update_deceased (gj_owners d)
                 (owner\<lparr>p_status_type := PREVIOUS, p_change_registration_id := new_reg_id\<rparr>))
            (owners g)"
    if "Some (group_id g) = gj_groupId d"
      and "is_transfer_due_to_death (registrationType data)"
      and "distinct (map gj_groupId deletes)" for g
  proof -
    have "remove_all new_reg_id (registrationType data) deletes g
        = remove_group d g new_reg_id (registrationType data)"
      using that(1,3) d by (intro remove_all_unique) simp_all
    then show ?thesis
      using that(1,2) by (simp add: remove_group_def remove_owner_def Let_def)
  qed
  show ?thesis
    using run all d by (auto simp: remove_all_match death)
qed

theorem remove_groups_supersedes_witness:
  "\<exists>self'. remove_groups death_transfer_payload 9 death_transfer_base = Inr self'
     \<and> map group_id (all_owner_groups self') = [1, 2]
     \<and> superseded_by 9 (all_owner_groups self' ! 0)
     \<and> map death_cert_number (owners (all_owner_groups self' ! 0)) = [Some ''DC-0001'']
     \<and> map death_ts (owners (all_owner_groups self' ! 0)) = [Some 900]
     \<and> g_status_type (all_owner_groups self' ! 1) = OWNER_ACTIVE"
proof -
  have deletes: "deleteOwnerGroups death_transfer_payload = Some [death_delete]"
    by (simp add: death_transfer_payload_def empty_payload_def)
  have groups: "all_owner_groups death_transfer_base = [individual_group, sole_group 2]"
    by (simp add: all_owner_groups_def death_transfer_base_def example_defs)
  have ids: "group_id individual_group = 1" "group_id (sole_group 2) = 2"
    "gj_groupId death_delete = Some 1"
    by (simp_all add: individual_group_def sole_group_def death_delete_def sole_group_json_def)
  have death: "is_transfer_due_to_death (registrationType death_transfer_payload)"
    by (simp add: is_transfer_due_to_death_def death_transfer_payload_def empty_payload_def)
  from remove_groups_supersedes[OF deletes, of death_delete 9 death_transfer_base]
  obtain self' where
    run: "remove_groups death_transfer_payload 9 death_transfer_base = Inr self'"
    and len: "length (all_owner_groups self') = length (all_owner_groups death_transfer_base)"
    and sup: "\<forall>i < length (all_owner_groups death_transfer_base).
           Some (group_id (all_owner_groups death_transfer_base ! i)) = gj_groupId death_delete \<longrightarrow>
             superseded_by 9 (all_owner_groups self' ! i)
             \<and> group_id (all_owner_groups self' ! i)
                 = group_id (all_owner_groups death_transfer_base ! i)
             \<and> (is_transfer_due_to_death (registrationType death_transfer_payload)
                  \<and> distinct (map gj_groupId [death_delete]) \<longrightarrow>
                owners (all_owner_groups self' ! i)
                  = map (\<lambda>owner. update_deceased (gj_owners death_delete)
                           (owner\<lparr>p_status_type := PREVIOUS, p_change_registration_id := 9\<rparr>))
                      (owners (all_owner_groups death_transfer_base ! i)))"
    by auto
  from sup[rule_format, of 0] groups ids death
  have first: "superseded_by 9 (all_owner_groups self' ! 0)"
    "owners (all_owner_groups self' ! 0)
       = map (\<lambda>owner. update_deceased (gj_owners death_delete)
                (owner\<lparr>p_status_type := PREVIOUS, p_change_registration_id := 9\<rparr>))
           (owners individual_group)"
    by simp_all
  have stamped: "map death_cert_number (owners (all_owner_groups self' ! 0)) = [Some ''DC-0001'']"
    "map death_ts (owners (all_owner_groups self' ! 0)) = [Some 900]"
    unfolding first(2)
    by (simp_all add: individual_group_def death_delete_def deceased_owner_def
        update_deceased_def owner_matches_def stamp_death_def)
  have "self' = remove_groups_loop 9 (registrationType death_transfer_payload) [death_delete]
                  death_transfer_base"
    using run by (simp add: remove_groups_def deletes del: remove_groups_loop.simps)
  then have all: "all_owner_groups self'
      = [remove_group death_delete individual_group 9 (registrationType death_transfer_payload),
         remove_group death_delete (sole_group 2) 9 (registrationType death_transfer_payload)]"
    by (simp add: all_owner_groups_remove_groups_loop groups del: remove_groups_loop.simps)
  have rest: "map group_id (all_owner_groups self') = [1, 2]"
    "g_status_type (all_owner_groups self' ! 1) = OWNER_ACTIVE"
    by (simp_all add: all ids remove_group_other sole_group_def MhrOwnerGroup_create_from_json_def)
  show ?thesis
    using run first(1) stamped rest by (intro exI[of _ self']) simp
qed

subsection \<open>Group ids of a change registration\<close>






subsection \<open>Lookups by MHR number\<close>

text \<open>
  C7, as the code has it. A lookup by business key (\<^verbatim>\<open>find_by_mhr_number\<close> with the
  default registration type, \<^verbatim>\<open>find_all_by_mhr_number\<close>) fails with the not-found error
  when the formatted key is empty or the store has no chain root for it. When the store
  has one root for the key, the lookup fails with the authorization error, which is not
  the not-found error, if the caller is refused: it is not staff, it names a non-empty
  account id that is not the root's, and no extra-registration grant exists for that
  account and key. Otherwise it returns the root (with the first document's key as
  \<^verbatim>\<open>doc_id\<close>; \<^verbatim>\<open>find_all_by_mhr_number\<close> attaches the chain in timestamp order): a caller
  that names no account id is not checked. Several roots for one key are a database error.
\<close>

theorem find_by_mhr_number_contract:
  "(format_mhr_number mhr_num = [] \<or> chain_roots format_mhr_number st mhr_num = [] \<longrightarrow>
      find_by_mhr_number format_mhr_number st mhr_num acct is_staff None = Inl NOT_FOUND
      \<and> find_all_by_mhr_number format_mhr_number st mhr_num acct is_staff = Inl NOT_FOUND)
   \<and> (\<forall>root_reg. format_mhr_number mhr_num \<noteq> []
          \<and> chain_roots format_mhr_number st mhr_num = [root_reg] \<longrightarrow>
        (if refused st (format_mhr_number mhr_num) acct is_staff root_reg
         then find_by_mhr_number format_mhr_number st mhr_num acct is_staff None = Inl UNAUTHORIZED
              \<and> find_all_by_mhr_number format_mhr_number st mhr_num acct is_staff
                  = Inl UNAUTHORIZED
         else find_by_mhr_number format_mhr_number st mhr_num acct is_staff None
                = Inr (set_doc_id (loaded root_reg))
              \<and> find_all_by_mhr_number format_mhr_number st mhr_num acct is_staff
                = Inr ((set_doc_id (loaded root_reg))
                         \<lparr>change_registrations := chain_of format_mhr_number st mhr_num\<rparr>)))
   \<and> (format_mhr_number mhr_num \<noteq> [] \<and> length (chain_roots format_mhr_number st mhr_num) > 1 \<longrightarrow>
        find_by_mhr_number format_mhr_number st mhr_num acct is_staff None
          = Inl (DatabaseException MultipleResultsFound))
   \<and> UNAUTHORIZED \<noteq> NOT_FOUND"
proof -
  have many: "one_or_none xs = Inl MultipleResultsFound" if "length xs > 1" for xs :: "MhrRegistration list"
    using that by (cases xs rule: one_or_none.cases) simp_all
  show ?thesis
    by (auto simp: find_by_mhr_number_def find_all_by_mhr_number_def chain_roots_def chain_of_def
        refused_def Let_def many)
qed

theorem find_by_mhr_number_contract_witness:
  "find_by_mhr_number (\<lambda>m. m) one_root_store ''000901'' (Some ''OTHER'') False None = Inl NOT_FOUND
   \<and> find_by_mhr_number (\<lambda>m. m) one_root_store ''000900'' (Some ''OTHER'') False None
       = Inl UNAUTHORIZED
   \<and> find_all_by_mhr_number (\<lambda>m. m) one_root_store ''000900'' (Some ''OTHER'') False
       = Inl UNAUTHORIZED
   \<and> find_by_mhr_number (\<lambda>m. m) one_root_store ''000900'' (Some ''EXTRA'') False None
       = Inr (set_doc_id (loaded (example_registration 1 MHREG [] [])))
   \<and> find_all_by_mhr_number (\<lambda>m. m) one_root_store ''000900'' (Some ''PS12345'') False
       = Inr ((set_doc_id (loaded (example_registration 1 MHREG [] [])))
                \<lparr>change_registrations := [example_registration 2 PERMIT [] [],
                                          example_registration 3 TRANS [] []]\<rparr>)"
proof -
  have roots: "chain_roots (\<lambda>m. m) one_root_store ''000900'' = [example_registration 1 MHREG [] []]"
    and none: "chain_roots (\<lambda>m. m) one_root_store ''000901'' = []"
    and chain: "chain_of (\<lambda>m. m) one_root_store ''000900''
       = [example_registration 2 PERMIT [] [], example_registration 3 TRANS [] []]"
    by (simp_all add: chain_roots_def chain_of_def one_root_store_def example_registration_def
        is_root_type_def)
  have r1: "refused one_root_store ''000900'' (Some ''OTHER'') False
              (example_registration 1 MHREG [] [])"
    and r2: "\<not> refused one_root_store ''000900'' (Some ''EXTRA'') False
              (example_registration 1 MHREG [] [])"
    and r3: "\<not> refused one_root_store ''000900'' (Some ''PS12345'') False
              (example_registration 1 MHREG [] [])"
    by (simp_all add: refused_def truthy_def extra_registration_exists_def one_root_store_def
        example_registration_def)
  show ?thesis
    using find_by_mhr_number_contract[of "\<lambda>m. m" "''000901''" one_root_store "Some ''OTHER''" False]
      find_by_mhr_number_contract[of "\<lambda>m. m" "''000900''" one_root_store "Some ''OTHER''" False]
      find_by_mhr_number_contract[of "\<lambda>m. m" "''000900''" one_root_store "Some ''EXTRA''" False]
      find_by_mhr_number_contract[of "\<lambda>m. m" "''000900''" one_root_store "Some ''PS12345''" False]
    by (simp add: roots none chain r1 r2 r3)
qed

text \<open>
  A caller that is not staff and names no account id (\<^verbatim>\<open>None\<close>, or the empty string) is
  given the root of another account's record, with no grant: the claim's authorization
  error is not raised.
\<close>

theorem find_by_mhr_number_no_account_not_refused:
  "account_id (example_registration 1 MHREG [] []) \<noteq> None
   \<and> \<not> extra_registration_exists one_root_store ''000900'' None
   \<and> find_by_mhr_number (\<lambda>m. m) one_root_store ''000900'' None False None
       = Inr (set_doc_id (loaded (example_registration 1 MHREG [] [])))
   \<and> account_id (example_registration 1 MHREG [] []) \<noteq> Some []
   \<and> \<not> extra_registration_exists one_root_store ''000900'' (Some [])
   \<and> find_by_mhr_number (\<lambda>m. m) one_root_store ''000900'' (Some []) False None
       = Inr (set_doc_id (loaded (example_registration 1 MHREG [] [])))"
  by (simp add: find_by_mhr_number_def one_root_store_def example_registration_def truthy_def
      extra_registration_exists_def is_root_type_def)

subsection \<open>A failed save after the payment\<close>


lemma try_save_registration_store_error:
  assumes "create_new_from_json env data draft acct usr = Inr registration"
    and "set_payment svc invoice_id ref registration = Inr registration1"
    and "registration_save svc registration1 = Some e"
  shows "try_save_registration svc env data draft acct usr invoice_id ref = Inl e"
  using assms by (simp add: try_save_registration_def)



subsection \<open>Projecting the view twice\<close>





end
